theory Spec2Isabelle
  imports Main "HOL-Library.Word"
begin

section \<open>The workflow executor of go-workflows (internal/workflow/executor.go)\<close>

text \<open>
  The executor joins a history of events, a command log and a cooperatively scheduled
  workflow function. Only \<^verbatim>\<open>executor.go\<close> is part of the sources; the packages it
  calls (\<^verbatim>\<open>history\<close>, \<^verbatim>\<open>command\<close>, \<^verbatim>\<open>core\<close>, \<^verbatim>\<open>workflowstate\<close>, the coroutine
  behind \<^verbatim>\<open>workflow\<close>) are collaborators. Plain data helpers of those packages are
  modelled from the specification and marked as such; the workflow function, the
  registry, the history provider, the clocks and the event id generator are parameters
  (the record \<open>env\<close>).
\<close>

subsection \<open>Data model\<close>

type_synonym int64 = "64 word"

text \<open>\<^verbatim>\<open>payload.Payload\<close> is a byte slice; \<open>None\<close> is the nil payload.\<close>

type_synonym Payload = "string option"

text \<open>\<^verbatim>\<open>time.Time\<close>, as a count of clock ticks.\<close>

type_synonym Time = int

text \<open>
  A Go \<^verbatim>\<open>error\<close> value is carried by its message (\<^verbatim>\<open>err.Error()\<close>); \<open>None\<close> is nil.
  A run-time panic (a failed type assertion, a nil receiver) is not an error value: it
  unwinds through every caller in this file, none of which recovers.
\<close>

datatype fault = Error string | Panic string

record WorkflowInstance =
  InstanceID :: string
  ExecutionID :: string
  ParentInstanceID :: string
  ParentEventID :: int64

datatype EventType =
    EventType_WorkflowExecutionStarted
  | EventType_WorkflowExecutionFinished
  | EventType_WorkflowExecutionCanceled
  | EventType_WorkflowTaskStarted
  | EventType_ActivityScheduled
  | EventType_ActivityCompleted
  | EventType_ActivityFailed
  | EventType_TimerScheduled
  | EventType_TimerFired
  | EventType_TimerCanceled
  | EventType_SignalReceived
  | EventType_SideEffectResult
  | EventType_SubWorkflowScheduled
  | EventType_SubWorkflowCancellationRequested
  | EventType_SubWorkflowFailed
  | EventType_SubWorkflowCompleted
  | EventType_Other nat

text \<open>
  \<^verbatim>\<open>Event.Attributes\<close> is an \<^verbatim>\<open>interface{}\<close> holding a pointer to one of the attribute
  structs; the event type is a separate field, so the two can disagree.
\<close>

datatype Attributes =
    ExecutionStartedAttributes string "Payload list"
  | ExecutionCompletedAttributes Payload string
  | ExecutionCanceledAttributes
  | WorkflowTaskStartedAttributes
  | ActivityScheduledAttributes string "Payload list"
  | ActivityCompletedAttributes Payload
  | ActivityFailedAttributes string
  | TimerScheduledAttributes Time
  | TimerFiredAttributes Time
  | TimerCanceledAttributes
  | SignalReceivedAttributes string Payload
  | SideEffectResultAttributes Payload
  | SubWorkflowScheduledAttributes WorkflowInstance string "Payload list"
  | SubWorkflowCancellationRequestedAttributes WorkflowInstance
  | SubWorkflowFailedAttributes string
  | SubWorkflowCompletedAttributes Payload
  | NoAttributes

record Event =
  ID :: string
  SequenceID :: int64
  Type :: EventType
  Timestamp :: Time
  ScheduleEventID :: int64
  VisibleAt :: "Time option"
  Attributes :: Attributes

record WorkflowEvent =
  WorkflowInstance :: WorkflowInstance
  HistoryEvent :: Event

datatype CommandState = CommandState_Pending | CommandState_Committed

datatype CommandType =
    CommandType_ScheduleActivity
  | CommandType_ScheduleSubWorkflow
  | CommandType_CancelSubWorkflow
  | CommandType_SideEffect
  | CommandType_ScheduleTimer
  | CommandType_CancelTimer
  | CommandType_CompleteWorkflow
  | CommandType_Other nat

datatype CommandAttr =
    ScheduleActivityTaskCommandAttr string "Payload list"
  | ScheduleSubWorkflowCommandAttr WorkflowInstance string "Payload list"
  | CancelSubWorkflowCommandAttr WorkflowInstance
  | SideEffectCommandAttr Payload
  | ScheduleTimerCommandAttr Time
  | CancelTimerCommandAttr int64
  | CompleteWorkflowCommandAttr Payload string
  | NoCommandAttr

record Command =
  Command_ID :: int64
  Command_State :: CommandState
  Command_Type :: CommandType
  Command_Attr :: CommandAttr

record Task =
  Task_ID :: string
  Task_WorkflowInstance :: WorkflowInstance
  LastSequenceID :: int64
  NewEvents :: "Event list"

record ExecutionResult =
  Completed :: bool
  Executed :: "Event list"
  ActivityEvents :: "Event list"
  WorkflowEvents :: "WorkflowEvent list"

text \<open>
  A registered future is a \<^verbatim>\<open>DecodingSettable\<close>: a closure
  \<^verbatim>\<open>func(v payload.Payload, err error) error\<close> that writes into memory shared with
  the workflow function. \<open>'h\<close> is that memory (the coroutine and the future slots it
  waits on).
\<close>

type_synonym 'h DecodingSettable = "Payload \<Rightarrow> string option \<Rightarrow> 'h \<Rightarrow> string option \<times> 'h"

record 'h WfState =
  Instance :: WorkflowInstance
  scheduleEventID :: int64
  commands :: "Command list"
  pendingFutures :: "int64 \<rightharpoonup> 'h DecodingSettable"
  replaying :: bool
  time :: Time
  pendingSignals :: "string \<Rightarrow> Payload list"

text \<open>
  The executor struct. \<open>workflow\<close> is the pointer \<^verbatim>\<open>e.workflow\<close> (\<open>None\<close> is nil; \<open>'f\<close>
  is a registered workflow function), \<open>workflowCtx\<close> tells whether the workflow context
  has been canceled, \<open>memory\<close> is the memory the workflow function and the settables
  share, and \<open>created\<close> counts the events created so far (it indexes the clock readings
  and event ids of \<open>env\<close>).
\<close>

record ('f, 'h) executor =
  workflow :: "'f option"
  workflowState :: "'h WfState"
  workflowCtx :: bool
  memory :: 'h
  lastSequenceID :: int64
  created :: nat

text \<open>
  The collaborators. \<open>wfExecute\<close> and \<open>wfContinue\<close> run the workflow function until it
  blocks: they read and change the shared memory and the workflow state (commands,
  futures, schedule event ids, signals) and may return an error. \<open>setInstance\<close> is
  what a write to the \<open>Instance\<close> field of a command's attributes does to the shared
  memory (the workflow function may still hold the command). Logging and the transport
  context \<^verbatim>\<open>ctx\<close> are left out; the history provider reads the sequence id it is
  handed.
\<close>

record ('f, 'h) env =
  clockNow :: "nat \<Rightarrow> Time"
  timeNow :: "nat \<Rightarrow> Time"
  newEventID :: "nat \<Rightarrow> string"
  GetWorkflow :: "string \<Rightarrow> 'f option"
  GetWorkflowInstanceHistory :: "WorkflowInstance \<Rightarrow> int64 \<Rightarrow> string + Event list"
  wfExecute :: "'f \<Rightarrow> Payload list \<Rightarrow> bool \<Rightarrow> 'h \<times> 'h WfState \<Rightarrow> string option \<times> 'h \<times> 'h WfState"
  wfContinue :: "'f \<Rightarrow> bool \<Rightarrow> 'h \<times> 'h WfState \<Rightarrow> string option \<times> 'h \<times> 'h WfState"
  wfCompleted :: "'f \<Rightarrow> 'h \<Rightarrow> bool"
  wfResult :: "'f \<Rightarrow> 'h \<Rightarrow> Payload"
  wfError :: "'f \<Rightarrow> 'h \<Rightarrow> string option"
  setInstance :: "Command \<Rightarrow> WorkflowInstance \<Rightarrow> 'h \<Rightarrow> 'h"

subsection \<open>Helpers of the packages outside the sources\<close>

text \<open>
  Modelled from the spec: \<^verbatim>\<open>core.WorkflowInstance.SubWorkflow\<close> is not in the sources. The
  data model gives an instance the parent fields only when it is a sub-workflow, so an
  instance is a sub-workflow when its parent instance id is set.
\<close>

definition SubWorkflow :: "WorkflowInstance \<Rightarrow> bool" where
  "SubWorkflow i = (ParentInstanceID i \<noteq> [])"

text \<open>
  Modelled from the spec: \<^verbatim>\<open>core.NewWorkflowInstance\<close> is not in the sources; it builds an
  instance from its two ids, with no parent.
\<close>

definition NewWorkflowInstance :: "string \<Rightarrow> string \<Rightarrow> WorkflowInstance" where
  "NewWorkflowInstance instanceID executionID =
     \<lparr>InstanceID = instanceID, ExecutionID = executionID, ParentInstanceID = [], ParentEventID = 0\<rparr>"

text \<open>
  Modelled from the spec: the event options \<^verbatim>\<open>history.ScheduleEventID\<close> and
  \<^verbatim>\<open>history.VisibleAt\<close> are not in the sources; each sets the field it is named after.
\<close>

definition ScheduleEventID_option :: "int64 \<Rightarrow> Event \<Rightarrow> Event" where
  "ScheduleEventID_option i ev = ev\<lparr>ScheduleEventID := i\<rparr>"

definition VisibleAt_option :: "Time \<Rightarrow> Event \<Rightarrow> Event" where
  "VisibleAt_option at ev = ev\<lparr>VisibleAt := Some at\<rparr>"

text \<open>
  Modelled from the spec: \<^verbatim>\<open>history.NewPendingEvent\<close> is not in the sources. It builds an
  event of the given type, timestamp and attributes and applies the options in order. The
  sequence id is left unassigned (zero): sequence ids are assigned by the executor at
  emission time. The event's id (a fresh identifier) is passed in.
\<close>

definition NewPendingEvent ::
  "string \<Rightarrow> Time \<Rightarrow> EventType \<Rightarrow> Attributes \<Rightarrow> (Event \<Rightarrow> Event) list \<Rightarrow> Event" where
  "NewPendingEvent eid timestamp eventType attributes opts =
     fold (\<lambda>opt ev. opt ev) opts
       \<lparr>ID = eid, SequenceID = 0, Type = eventType, Timestamp = timestamp,
        ScheduleEventID = 0, VisibleAt = None, Attributes = attributes\<rparr>"

text \<open>
  Modelled from the spec: \<^verbatim>\<open>history.NewWorkflowCancellationEvent\<close> is not in the sources;
  it is the pending event of type \<open>WorkflowExecutionCanceled\<close> (the workflow-cancellation
  message sent to a child).
\<close>

definition NewWorkflowCancellationEvent :: "string \<Rightarrow> Time \<Rightarrow> Event" where
  "NewWorkflowCancellationEvent eid timestamp =
     NewPendingEvent eid timestamp EventType_WorkflowExecutionCanceled ExecutionCanceledAttributes []"

text \<open>
  Modelled from the spec: the numeric codes of \<^verbatim>\<open>command.CommandType\<close> and
  \<^verbatim>\<open>history.EventType\<close> are declared outside the sources; where an error message prints
  one with \<^verbatim>\<open>%v\<close>, the model prints the type's name.
\<close>

fun CommandType_String :: "CommandType \<Rightarrow> string" where
  "CommandType_String CommandType_ScheduleActivity = ''ScheduleActivity''"
| "CommandType_String CommandType_ScheduleSubWorkflow = ''ScheduleSubWorkflow''"
| "CommandType_String CommandType_CancelSubWorkflow = ''CancelSubWorkflow''"
| "CommandType_String CommandType_SideEffect = ''SideEffect''"
| "CommandType_String CommandType_ScheduleTimer = ''ScheduleTimer''"
| "CommandType_String CommandType_CancelTimer = ''CancelTimer''"
| "CommandType_String CommandType_CompleteWorkflow = ''CompleteWorkflow''"
| "CommandType_String (CommandType_Other n) = ''Other''"

subsection \<open>createNewEvent and processCommands\<close>

text \<open>
  \<^verbatim>\<open>createNewEvent\<close> reads the injected clock and builds a pending event. \<open>k\<close> is the
  number of events created before; the new count is returned with the event.
\<close>

definition createNewEvent ::
  "('f, 'h) env \<Rightarrow> nat \<Rightarrow> EventType \<Rightarrow> Attributes \<Rightarrow> (Event \<Rightarrow> Event) list \<Rightarrow> Event \<times> nat" where
  "createNewEvent env k eventType attributes opts =
     (NewPendingEvent (newEventID env k) (clockNow env k) eventType attributes opts, Suc k)"

text \<open>The four result variables of \<^verbatim>\<open>processCommands\<close>.\<close>

record commandEvents =
  completed :: bool
  newEvents :: "Event list"
  activityEvents :: "Event list"
  workflowEvents :: "WorkflowEvent list"

text \<open>
  The body of the loop of \<^verbatim>\<open>processCommands\<close> for one command (the \<^verbatim>\<open>switch c.Type\<close>).
  A type assertion \<^verbatim>\<open>c.Attr.(*T)\<close> on attributes of another type panics.
\<close>

definition processCommand ::
  "('f, 'h) env \<Rightarrow> WorkflowInstance \<Rightarrow> Command \<Rightarrow> commandEvents \<Rightarrow> nat \<Rightarrow> fault + commandEvents \<times> nat" where
  "processCommand env inst c r k =
    (case Command_Type c of
       CommandType_ScheduleActivity \<Rightarrow>
        (case Command_Attr c of
           ScheduleActivityTaskCommandAttr name inputs \<Rightarrow>
             (let (scheduleActivityEvent, k1) =
                    createNewEvent env k EventType_ActivityScheduled
                      (ActivityScheduledAttributes name inputs)
                      [ScheduleEventID_option (Command_ID c)]
              in Inr (r\<lparr>newEvents := newEvents r @ [scheduleActivityEvent],
                        activityEvents := activityEvents r @ [scheduleActivityEvent]\<rparr>, k1))
         | _ \<Rightarrow> Inl (Panic ''interface conversion: c.Attr is not *command.ScheduleActivityTaskCommandAttr''))
     | CommandType_ScheduleSubWorkflow \<Rightarrow>
        (case Command_Attr c of
           ScheduleSubWorkflowCommandAttr subInstance name inputs \<Rightarrow>
             (let (scheduled, k1) =
                    createNewEvent env k EventType_SubWorkflowScheduled
                      (SubWorkflowScheduledAttributes subInstance name inputs)
                      [ScheduleEventID_option (Command_ID c)];
                  (started, k2) =
                    createNewEvent env k1 EventType_WorkflowExecutionStarted
                      (ExecutionStartedAttributes name inputs)
                      [ScheduleEventID_option (Command_ID c)]
              in Inr (r\<lparr>newEvents := newEvents r @ [scheduled],
                        workflowEvents := workflowEvents r @
                          [\<lparr>WorkflowInstance = subInstance, HistoryEvent = started\<rparr>]\<rparr>, k2))
         | _ \<Rightarrow> Inl (Panic ''interface conversion: c.Attr is not *command.ScheduleSubWorkflowCommandAttr''))
     | CommandType_CancelSubWorkflow \<Rightarrow>
        (case Command_Attr c of
           CancelSubWorkflowCommandAttr subInstance \<Rightarrow>
             (let (requested, k1) =
                    createNewEvent env k EventType_SubWorkflowCancellationRequested
                      (SubWorkflowScheduledAttributes subInstance [] []) [];
                  cancellation = NewWorkflowCancellationEvent (newEventID env k1) (timeNow env k1)
              in Inr (r\<lparr>newEvents := newEvents r @ [requested],
                        workflowEvents := workflowEvents r @
                          [\<lparr>WorkflowInstance = subInstance, HistoryEvent = cancellation\<rparr>]\<rparr>, Suc k1))
         | _ \<Rightarrow> Inl (Panic ''interface conversion: c.Attr is not *command.CancelSubWorkflowCommandAttr''))
     | CommandType_SideEffect \<Rightarrow>
        (case Command_Attr c of
           SideEffectCommandAttr result \<Rightarrow>
             (let (sideEffect, k1) =
                    createNewEvent env k EventType_SideEffectResult
                      (SideEffectResultAttributes result)
                      [ScheduleEventID_option (Command_ID c)]
              in Inr (r\<lparr>newEvents := newEvents r @ [sideEffect]\<rparr>, k1))
         | _ \<Rightarrow> Inl (Panic ''interface conversion: c.Attr is not *command.SideEffectCommandAttr''))
     | CommandType_ScheduleTimer \<Rightarrow>
        (case Command_Attr c of
           ScheduleTimerCommandAttr at \<Rightarrow>
             (let (scheduled, k1) =
                    createNewEvent env k EventType_TimerScheduled
                      (TimerScheduledAttributes at)
                      [ScheduleEventID_option (Command_ID c)];
                  (fired, k2) =
                    createNewEvent env k1 EventType_TimerFired
                      (TimerFiredAttributes at)
                      [ScheduleEventID_option (Command_ID c), VisibleAt_option at]
              in Inr (r\<lparr>newEvents := newEvents r @ [scheduled],
                        workflowEvents := workflowEvents r @
                          [\<lparr>WorkflowInstance = inst, HistoryEvent = fired\<rparr>]\<rparr>, k2))
         | _ \<Rightarrow> Inl (Panic ''interface conversion: c.Attr is not *command.ScheduleTimerCommandAttr''))
     | CommandType_CancelTimer \<Rightarrow>
        (case Command_Attr c of
           CancelTimerCommandAttr timerScheduleEventID \<Rightarrow>
             (let (canceled, k1) =
                    createNewEvent env k EventType_TimerCanceled TimerCanceledAttributes
                      [ScheduleEventID_option timerScheduleEventID]
              in Inr (r\<lparr>workflowEvents := workflowEvents r @
                          [\<lparr>WorkflowInstance = inst, HistoryEvent = canceled\<rparr>]\<rparr>, k1))
         | _ \<Rightarrow> Inl (Panic ''interface conversion: c.Attr is not *command.CancelTimerCommandAttr''))
     | CommandType_CompleteWorkflow \<Rightarrow>
        (case Command_Attr c of
           CompleteWorkflowCommandAttr result err \<Rightarrow>
             (let (finished, k1) =
                    createNewEvent env k EventType_WorkflowExecutionFinished
                      (ExecutionCompletedAttributes result err)
                      [ScheduleEventID_option (Command_ID c)];
                  r1 = r\<lparr>completed := True, newEvents := newEvents r @ [finished]\<rparr>
              in if SubWorkflow inst then
                   (let (historyEvent, k2) =
                          (if err \<noteq> [] then
                             createNewEvent env k1 EventType_SubWorkflowFailed
                               (SubWorkflowFailedAttributes err)
                               [ScheduleEventID_option (ParentEventID inst)]
                           else
                             createNewEvent env k1 EventType_SubWorkflowCompleted
                               (SubWorkflowCompletedAttributes result)
                               [ScheduleEventID_option (ParentEventID inst)])
                    in Inr (r1\<lparr>workflowEvents := workflowEvents r1 @
                              [\<lparr>WorkflowInstance = NewWorkflowInstance (ParentInstanceID inst) [],
                                HistoryEvent = historyEvent\<rparr>]\<rparr>, k2))
                 else Inr (r1, k1))
         | _ \<Rightarrow> Inl (Panic ''interface conversion: c.Attr is not *command.CompleteWorkflowCommandAttr''))
     | CommandType_Other n \<Rightarrow>
         Inl (Error (''unknown command type: '' @ CommandType_String (Command_Type c))))"

text \<open>
  The loop over the command log. Every command reached is marked \<open>Committed\<close> before its
  type is looked at (the commands are shared with the workflow state through pointers, so
  the marks stay when the loop returns early). The result is the outcome, the command
  log with its marks, and the count of created events.
\<close>

fun processCommands_loop ::
  "('f, 'h) env \<Rightarrow> WorkflowInstance \<Rightarrow> Command list \<Rightarrow> commandEvents \<Rightarrow> nat
     \<Rightarrow> (fault + commandEvents) \<times> Command list \<times> nat" where
  "processCommands_loop env inst [] r k = (Inr r, [], k)"
| "processCommands_loop env inst (c # cs) r k =
     (let c' = c\<lparr>Command_State := CommandState_Committed\<rparr> in
      case processCommand env inst c' r k of
        Inl err \<Rightarrow> (Inl err, c' # cs, k)
      | Inr (r', k') \<Rightarrow>
          (case processCommands_loop env inst cs r' k' of
             (res, cs', k'') \<Rightarrow> (res, c' # cs', k'')))"

definition processCommands ::
  "('f, 'h) env \<Rightarrow> ('f, 'h) executor \<Rightarrow> Task \<Rightarrow> (fault + commandEvents) \<times> ('f, 'h) executor" where
  "processCommands env e t =
     (case processCommands_loop env (Task_WorkflowInstance t) (commands (workflowState e))
             \<lparr>completed = False, newEvents = [], activityEvents = [], workflowEvents = []\<rparr>
             (created e) of
        (res, cs, k) \<Rightarrow>
          (res, e\<lparr>workflowState := (workflowState e)\<lparr>commands := cs\<rparr>, created := k\<rparr>))"

subsection \<open>The workflow state (package workflowstate) and the workflow object\<close>

text \<open>
  Modelled from the spec: the methods of \<^verbatim>\<open>workflowstate.WfState\<close> are not in the sources.
  The command log is insertion ordered and looked up by command id; the future registry
  maps a schedule event id to its resolver; the schedule event id counter only grows.
\<close>

definition ClearCommands :: "'h WfState \<Rightarrow> 'h WfState" where
  "ClearCommands s = s\<lparr>commands := []\<rparr>"

definition AddCommand :: "'h WfState \<Rightarrow> Command \<Rightarrow> 'h WfState" where
  "AddCommand s c = s\<lparr>commands := commands s @ [c]\<rparr>"

fun removeCommand :: "int64 \<Rightarrow> Command list \<Rightarrow> Command option \<times> Command list" where
  "removeCommand i [] = (None, [])"
| "removeCommand i (c # cs) =
     (if Command_ID c = i then (Some c, cs)
      else case removeCommand i cs of (found, cs') \<Rightarrow> (found, c # cs'))"

definition RemoveCommandByEventID :: "'h WfState \<Rightarrow> int64 \<Rightarrow> Command option \<times> 'h WfState" where
  "RemoveCommandByEventID s i =
     (case removeCommand i (commands s) of (found, cs) \<Rightarrow> (found, s\<lparr>commands := cs\<rparr>))"

definition FutureByScheduleEventID :: "'h WfState \<Rightarrow> int64 \<Rightarrow> 'h DecodingSettable option" where
  "FutureByScheduleEventID s i = pendingFutures s i"

definition GetNextScheduleEventID :: "'h WfState \<Rightarrow> int64 \<times> 'h WfState" where
  "GetNextScheduleEventID s = (scheduleEventID s + 1, s\<lparr>scheduleEventID := scheduleEventID s + 1\<rparr>)"

definition SetReplaying :: "'h WfState \<Rightarrow> bool \<Rightarrow> 'h WfState" where
  "SetReplaying s b = s\<lparr>replaying := b\<rparr>"

definition SetTime :: "'h WfState \<Rightarrow> Time \<Rightarrow> 'h WfState" where
  "SetTime s t = s\<lparr>time := t\<rparr>"

definition ReceiveSignal :: "'h WfState \<Rightarrow> string \<Rightarrow> Payload \<Rightarrow> 'h WfState" where
  "ReceiveSignal s name arg = s\<lparr>pendingSignals := (pendingSignals s)(name := pendingSignals s name @ [arg])\<rparr>"

text \<open>
  Modelled from the spec: \<^verbatim>\<open>command.NewCompleteWorkflowCommand\<close> is not in the sources. The
  command is pending, of type \<open>CompleteWorkflow\<close>, and carries the result and the error
  string (empty when the error is nil).
\<close>

definition NewCompleteWorkflowCommand :: "int64 \<Rightarrow> Payload \<Rightarrow> string option \<Rightarrow> Command" where
  "NewCompleteWorkflowCommand i result err =
     \<lparr>Command_ID = i, Command_State = CommandState_Pending,
      Command_Type = CommandType_CompleteWorkflow,
      Command_Attr = CompleteWorkflowCommandAttr result (case err of None \<Rightarrow> [] | Some m \<Rightarrow> m)\<rparr>"

fun EventType_String :: "EventType \<Rightarrow> string" where
  "EventType_String EventType_WorkflowExecutionStarted = ''WorkflowExecutionStarted''"
| "EventType_String EventType_WorkflowExecutionFinished = ''WorkflowExecutionFinished''"
| "EventType_String EventType_WorkflowExecutionCanceled = ''WorkflowExecutionCanceled''"
| "EventType_String EventType_WorkflowTaskStarted = ''WorkflowTaskStarted''"
| "EventType_String EventType_ActivityScheduled = ''ActivityScheduled''"
| "EventType_String EventType_ActivityCompleted = ''ActivityCompleted''"
| "EventType_String EventType_ActivityFailed = ''ActivityFailed''"
| "EventType_String EventType_TimerScheduled = ''TimerScheduled''"
| "EventType_String EventType_TimerFired = ''TimerFired''"
| "EventType_String EventType_TimerCanceled = ''TimerCanceled''"
| "EventType_String EventType_SignalReceived = ''SignalReceived''"
| "EventType_String EventType_SideEffectResult = ''SideEffectResult''"
| "EventType_String EventType_SubWorkflowScheduled = ''SubWorkflowScheduled''"
| "EventType_String EventType_SubWorkflowCancellationRequested = ''SubWorkflowCancellationRequested''"
| "EventType_String EventType_SubWorkflowFailed = ''SubWorkflowFailed''"
| "EventType_String EventType_SubWorkflowCompleted = ''SubWorkflowCompleted''"
| "EventType_String (EventType_Other n) = ''Other''"

text \<open>
  The calls \<^verbatim>\<open>e.workflow.Execute\<close>, \<^verbatim>\<open>e.workflow.Continue\<close> and the call of a settable
  \<^verbatim>\<open>f(v, err)\<close>. The workflow function runs on the shared memory and the workflow state
  and returns when it blocks. Modelled from the spec: the methods of \<^verbatim>\<open>workflow\<close> are not
  in the sources; called on the nil pointer \<^verbatim>\<open>e.workflow\<close> (no \<open>WorkflowExecutionStarted\<close>
  event was handled yet) they dereference nil and panic.
\<close>

definition workflow_Execute ::
  "('f, 'h) env \<Rightarrow> ('f, 'h) executor \<Rightarrow> Payload list \<Rightarrow> fault option \<times> ('f, 'h) executor" where
  "workflow_Execute env e inputs =
     (case workflow e of
        None \<Rightarrow> (Some (Panic ''nil pointer dereference''), e)
      | Some w \<Rightarrow>
          (case wfExecute env w inputs (workflowCtx e) (memory e, workflowState e) of
             (err, m, s) \<Rightarrow> (map_option Error err, e\<lparr>memory := m, workflowState := s\<rparr>)))"

definition workflow_Continue ::
  "('f, 'h) env \<Rightarrow> ('f, 'h) executor \<Rightarrow> fault option \<times> ('f, 'h) executor" where
  "workflow_Continue env e =
     (case workflow e of
        None \<Rightarrow> (Some (Panic ''nil pointer dereference''), e)
      | Some w \<Rightarrow>
          (case wfContinue env w (workflowCtx e) (memory e, workflowState e) of
             (err, m, s) \<Rightarrow> (map_option Error err, e\<lparr>memory := m, workflowState := s\<rparr>)))"

definition setFuture ::
  "'h DecodingSettable \<Rightarrow> Payload \<Rightarrow> string option \<Rightarrow> ('f, 'h) executor \<Rightarrow> string option \<times> ('f, 'h) executor" where
  "setFuture f v err e = (case f v err (memory e) of (r, m) \<Rightarrow> (r, e\<lparr>memory := m\<rparr>))"

text \<open>\<^verbatim>\<open>e.workflowState.RemoveCommandByEventID(id)\<close>, on the executor.\<close>

definition removeCommandByEventID ::
  "('f, 'h) executor \<Rightarrow> int64 \<Rightarrow> Command option \<times> ('f, 'h) executor" where
  "removeCommandByEventID e i =
     (case RemoveCommandByEventID (workflowState e) i of (c, s) \<Rightarrow> (c, e\<lparr>workflowState := s\<rparr>))"

subsection \<open>The event handlers\<close>

definition handleWorkflowExecutionStarted ::
  "('f, 'h) env \<Rightarrow> ('f, 'h) executor \<Rightarrow> string \<Rightarrow> Payload list \<Rightarrow> fault option \<times> ('f, 'h) executor" where
  "handleWorkflowExecutionStarted env e name inputs =
     (case GetWorkflow env name of
        None \<Rightarrow> (Some (Error (''workflow '' @ name @ '' not found'')), e)
      | Some wfFn \<Rightarrow> workflow_Execute env (e\<lparr>workflow := Some wfFn\<rparr>) inputs)"

definition handleWorkflowCanceled ::
  "('f, 'h) env \<Rightarrow> ('f, 'h) executor \<Rightarrow> fault option \<times> ('f, 'h) executor" where
  "handleWorkflowCanceled env e = workflow_Continue env (e\<lparr>workflowCtx := True\<rparr>)"

definition handleWorkflowTaskStarted ::
  "('f, 'h) executor \<Rightarrow> Event \<Rightarrow> fault option \<times> ('f, 'h) executor" where
  "handleWorkflowTaskStarted e event =
     (None, e\<lparr>workflowState := SetTime (workflowState e) (Timestamp event)\<rparr>)"

definition handleActivityScheduled ::
  "('f, 'h) executor \<Rightarrow> Event \<Rightarrow> string \<Rightarrow> fault option \<times> ('f, 'h) executor" where
  "handleActivityScheduled e event name =
     (case removeCommandByEventID e (ScheduleEventID event) of
        (None, e1) \<Rightarrow>
          (Some (Error ''previous workflow execution scheduled an activity which could not be found''), e1)
      | (Some c, e1) \<Rightarrow>
          if Command_Type c \<noteq> CommandType_ScheduleActivity then
            (Some (Error (''previous workflow execution scheduled an activity, this time: ''
                          @ CommandType_String (Command_Type c))), e1)
          else
            (case Command_Attr c of
               ScheduleActivityTaskCommandAttr caName caInputs \<Rightarrow>
                 if name \<noteq> caName then
                   (Some (Error (''previous workflow execution scheduled different type of activity: ''
                                 @ name @ '', '' @ caName)), e1)
                 else (None, e1)
             | _ \<Rightarrow> (Some (Panic ''interface conversion: c.Attr is not *command.ScheduleActivityTaskCommandAttr''), e1)))"

definition handleActivityCompleted ::
  "('f, 'h) env \<Rightarrow> ('f, 'h) executor \<Rightarrow> Event \<Rightarrow> Payload \<Rightarrow> fault option \<times> ('f, 'h) executor" where
  "handleActivityCompleted env e event result =
     (case FutureByScheduleEventID (workflowState e) (ScheduleEventID event) of
        None \<Rightarrow> (Some (Error ''could not find pending future for activity completion''), e)
      | Some f \<Rightarrow>
          (case setFuture f result None (snd (removeCommandByEventID e (ScheduleEventID event))) of
             (Some m, e2) \<Rightarrow> (Some (Error (''setting result: '' @ m)), e2)
           | (None, e2) \<Rightarrow> workflow_Continue env e2))"

definition handleActivityFailed ::
  "('f, 'h) env \<Rightarrow> ('f, 'h) executor \<Rightarrow> Event \<Rightarrow> string \<Rightarrow> fault option \<times> ('f, 'h) executor" where
  "handleActivityFailed env e event reason =
     (case FutureByScheduleEventID (workflowState e) (ScheduleEventID event) of
        None \<Rightarrow> (Some (Error ''no pending future for activity failed event''), e)
      | Some f \<Rightarrow>
          (case setFuture f None (Some reason) (snd (removeCommandByEventID e (ScheduleEventID event))) of
             (Some m, e2) \<Rightarrow> (Some (Error (''setting result: '' @ m)), e2)
           | (None, e2) \<Rightarrow> workflow_Continue env e2))"

definition handleTimerScheduled ::
  "('f, 'h) executor \<Rightarrow> Event \<Rightarrow> fault option \<times> ('f, 'h) executor" where
  "handleTimerScheduled e event = (None, snd (removeCommandByEventID e (ScheduleEventID event)))"

definition handleTimerFired ::
  "('f, 'h) env \<Rightarrow> ('f, 'h) executor \<Rightarrow> Event \<Rightarrow> fault option \<times> ('f, 'h) executor" where
  "handleTimerFired env e event =
     (case FutureByScheduleEventID (workflowState e) (ScheduleEventID event) of
        None \<Rightarrow> (None, e)
      | Some f \<Rightarrow>
          (case removeCommandByEventID e (ScheduleEventID event) of
             (None, e1) \<Rightarrow> (Some (Error ''previous workflow execution scheduled a timer''), e1)
           | (Some c, e1) \<Rightarrow>
               if Command_Type c \<noteq> CommandType_ScheduleTimer then
                 (Some (Error (''previous workflow execution scheduled a timer, this time: ''
                               @ CommandType_String (Command_Type c))), e1)
               else
                 (case setFuture f None None e1 of
                    (Some m, e2) \<Rightarrow> (Some (Error (''setting result: '' @ m)), e2)
                  | (None, e2) \<Rightarrow> workflow_Continue env e2)))"

definition handleTimerCanceled ::
  "('f, 'h) env \<Rightarrow> ('f, 'h) executor \<Rightarrow> Event \<Rightarrow> fault option \<times> ('f, 'h) executor" where
  "handleTimerCanceled env e event =
     (case FutureByScheduleEventID (workflowState e) (ScheduleEventID event) of
        None \<Rightarrow> (None, e)
      | Some f \<Rightarrow>
          (case setFuture f None None (snd (removeCommandByEventID e (ScheduleEventID event))) of
             (Some m, e2) \<Rightarrow> (Some (Error (''setting result: '' @ m)), e2)
           | (None, e2) \<Rightarrow> workflow_Continue env e2))"

text \<open>
  \<^verbatim>\<open>handleSubWorkflowScheduled\<close> ends by writing the sub-workflow instance of the event
  into the attributes of the command it removed. The command is no longer in the log; the
  write reaches the shared memory only.
\<close>

definition handleSubWorkflowScheduled ::
  "('f, 'h) env \<Rightarrow> ('f, 'h) executor \<Rightarrow> Event \<Rightarrow> WorkflowInstance \<Rightarrow> string \<Rightarrow> fault option \<times> ('f, 'h) executor" where
  "handleSubWorkflowScheduled env e event subInstance name =
     (case removeCommandByEventID e (ScheduleEventID event) of
        (None, e1) \<Rightarrow> (Some (Error ''previous workflow execution scheduled a sub workflow''), e1)
      | (Some c, e1) \<Rightarrow>
          if Command_Type c \<noteq> CommandType_ScheduleSubWorkflow then
            (Some (Error (''previous workflow execution scheduled a sub workflow, this time: ''
                          @ CommandType_String (Command_Type c))), e1)
          else
            (case Command_Attr c of
               ScheduleSubWorkflowCommandAttr caInstance caName caInputs \<Rightarrow>
                 if name \<noteq> caName then
                   (Some (Error (''previous workflow execution scheduled different type of sub workflow: ''
                                 @ name @ '', '' @ caName)), e1)
                 else (None, e1\<lparr>memory := setInstance env c subInstance (memory e1)\<rparr>)
             | _ \<Rightarrow> (Some (Panic ''interface conversion: c.Attr is not *command.ScheduleSubWorkflowCommandAttr''), e1)))"

definition handleSubWorkflowCancellationRequest ::
  "('f, 'h) env \<Rightarrow> ('f, 'h) executor \<Rightarrow> Event \<Rightarrow> fault option \<times> ('f, 'h) executor" where
  "handleSubWorkflowCancellationRequest env e event =
     (case removeCommandByEventID e (ScheduleEventID event) of
        (None, e1) \<Rightarrow>
          (Some (Error ''previous workflow execution cancelled a sub-workflow execution''), e1)
      | (Some c, e1) \<Rightarrow>
          if Command_Type c \<noteq> CommandType_CancelSubWorkflow then
            (Some (Error (''previous workflow execution cancelled a sub-workflow execution, this time: ''
                          @ CommandType_String (Command_Type c))), e1)
          else workflow_Continue env e1)"

definition handleSubWorkflowFailed ::
  "('f, 'h) env \<Rightarrow> ('f, 'h) executor \<Rightarrow> Event \<Rightarrow> string \<Rightarrow> fault option \<times> ('f, 'h) executor" where
  "handleSubWorkflowFailed env e event err =
     (case FutureByScheduleEventID (workflowState e) (ScheduleEventID event) of
        None \<Rightarrow> (Some (Error ''no pending future found for sub workflow failed event''), e)
      | Some f \<Rightarrow>
          (case setFuture f None (Some err) (snd (removeCommandByEventID e (ScheduleEventID event))) of
             (Some m, e2) \<Rightarrow> (Some (Error (''setting result: '' @ m)), e2)
           | (None, e2) \<Rightarrow> workflow_Continue env e2))"

definition handleSubWorkflowCompleted ::
  "('f, 'h) env \<Rightarrow> ('f, 'h) executor \<Rightarrow> Event \<Rightarrow> Payload \<Rightarrow> fault option \<times> ('f, 'h) executor" where
  "handleSubWorkflowCompleted env e event result =
     (case FutureByScheduleEventID (workflowState e) (ScheduleEventID event) of
        None \<Rightarrow> (Some (Error ''no pending future found for sub workflow completed event''), e)
      | Some f \<Rightarrow>
          (case setFuture f result None (snd (removeCommandByEventID e (ScheduleEventID event))) of
             (Some m, e2) \<Rightarrow> (Some (Error (''setting result: '' @ m)), e2)
           | (None, e2) \<Rightarrow> workflow_Continue env e2))"

definition handleSignalReceived ::
  "('f, 'h) env \<Rightarrow> ('f, 'h) executor \<Rightarrow> Event \<Rightarrow> string \<Rightarrow> Payload \<Rightarrow> fault option \<times> ('f, 'h) executor" where
  "handleSignalReceived env e event name arg =
     workflow_Continue env
       (snd (removeCommandByEventID (e\<lparr>workflowState := ReceiveSignal (workflowState e) name arg\<rparr>)
               (ScheduleEventID event)))"

text \<open>The error a settable returns is dropped by \<^verbatim>\<open>handleSideEffectResult\<close>.\<close>

definition handleSideEffectResult ::
  "('f, 'h) env \<Rightarrow> ('f, 'h) executor \<Rightarrow> Event \<Rightarrow> Payload \<Rightarrow> fault option \<times> ('f, 'h) executor" where
  "handleSideEffectResult env e event result =
     (case FutureByScheduleEventID (workflowState e) (ScheduleEventID event) of
        None \<Rightarrow> (Some (Error ''no pending future found for side effect result event''), e)
      | Some f \<Rightarrow> workflow_Continue env (snd (setFuture f result None e)))"

subsection \<open>executeEvent\<close>

text \<open>
  The dispatch on the event type. Each case asserts the type of the attributes
  (\<^verbatim>\<open>event.Attributes.(*T)\<close>); attributes of another type panic.
\<close>

definition badAttributes :: "('f, 'h) executor \<Rightarrow> fault option \<times> ('f, 'h) executor" where
  "badAttributes e = (Some (Panic ''interface conversion: event.Attributes has another type''), e)"

definition executeEvent ::
  "('f, 'h) env \<Rightarrow> ('f, 'h) executor \<Rightarrow> Event \<Rightarrow> fault option \<times> ('f, 'h) executor" where
  "executeEvent env e event =
    (case Type event of
       EventType_WorkflowExecutionStarted \<Rightarrow>
         (case Attributes event of
            ExecutionStartedAttributes name inputs \<Rightarrow> handleWorkflowExecutionStarted env e name inputs
          | _ \<Rightarrow> badAttributes e)
     | EventType_WorkflowExecutionFinished \<Rightarrow> (None, e)
     | EventType_WorkflowExecutionCanceled \<Rightarrow> handleWorkflowCanceled env e
     | EventType_WorkflowTaskStarted \<Rightarrow>
         (case Attributes event of
            WorkflowTaskStartedAttributes \<Rightarrow> handleWorkflowTaskStarted e event
          | _ \<Rightarrow> badAttributes e)
     | EventType_ActivityScheduled \<Rightarrow>
         (case Attributes event of
            ActivityScheduledAttributes name inputs \<Rightarrow> handleActivityScheduled e event name
          | _ \<Rightarrow> badAttributes e)
     | EventType_ActivityFailed \<Rightarrow>
         (case Attributes event of
            ActivityFailedAttributes reason \<Rightarrow> handleActivityFailed env e event reason
          | _ \<Rightarrow> badAttributes e)
     | EventType_ActivityCompleted \<Rightarrow>
         (case Attributes event of
            ActivityCompletedAttributes result \<Rightarrow> handleActivityCompleted env e event result
          | _ \<Rightarrow> badAttributes e)
     | EventType_TimerScheduled \<Rightarrow>
         (case Attributes event of
            TimerScheduledAttributes at \<Rightarrow> handleTimerScheduled e event
          | _ \<Rightarrow> badAttributes e)
     | EventType_TimerFired \<Rightarrow>
         (case Attributes event of
            TimerFiredAttributes at \<Rightarrow> handleTimerFired env e event
          | _ \<Rightarrow> badAttributes e)
     | EventType_TimerCanceled \<Rightarrow>
         (case Attributes event of
            TimerCanceledAttributes \<Rightarrow> handleTimerCanceled env e event
          | _ \<Rightarrow> badAttributes e)
     | EventType_SignalReceived \<Rightarrow>
         (case Attributes event of
            SignalReceivedAttributes name arg \<Rightarrow> handleSignalReceived env e event name arg
          | _ \<Rightarrow> badAttributes e)
     | EventType_SideEffectResult \<Rightarrow>
         (case Attributes event of
            SideEffectResultAttributes result \<Rightarrow> handleSideEffectResult env e event result
          | _ \<Rightarrow> badAttributes e)
     | EventType_SubWorkflowScheduled \<Rightarrow>
         (case Attributes event of
            SubWorkflowScheduledAttributes subInstance name inputs \<Rightarrow>
              handleSubWorkflowScheduled env e event subInstance name
          | _ \<Rightarrow> badAttributes e)
     | EventType_SubWorkflowCancellationRequested \<Rightarrow>
         (case Attributes event of
            SubWorkflowCancellationRequestedAttributes subInstance \<Rightarrow>
              handleSubWorkflowCancellationRequest env e event
          | _ \<Rightarrow> badAttributes e)
     | EventType_SubWorkflowFailed \<Rightarrow>
         (case Attributes event of
            SubWorkflowFailedAttributes err \<Rightarrow> handleSubWorkflowFailed env e event err
          | _ \<Rightarrow> badAttributes e)
     | EventType_SubWorkflowCompleted \<Rightarrow>
         (case Attributes event of
            SubWorkflowCompletedAttributes result \<Rightarrow> handleSubWorkflowCompleted env e event result
          | _ \<Rightarrow> badAttributes e)
     | EventType_Other n \<Rightarrow>
         (Some (Error (''unknown event type: '' @ EventType_String (Type event))), e))"

subsection \<open>workflowCompleted, replayHistory, executeNewEvents\<close>

definition workflowCompleted ::
  "('f, 'h) executor \<Rightarrow> Payload \<Rightarrow> string option \<Rightarrow> ('f, 'h) executor" where
  "workflowCompleted e result err =
     (case GetNextScheduleEventID (workflowState e) of
        (eventId, s) \<Rightarrow>
          e\<lparr>workflowState := AddCommand s (NewCompleteWorkflowCommand eventId result err)\<rparr>)"

fun replayHistory_loop ::
  "('f, 'h) env \<Rightarrow> ('f, 'h) executor \<Rightarrow> Event list \<Rightarrow> fault option \<times> ('f, 'h) executor" where
  "replayHistory_loop env e [] = (None, e)"
| "replayHistory_loop env e (event # events) =
     (case executeEvent env e event of
        (Some err, e1) \<Rightarrow> (Some err, e1)
      | (None, e1) \<Rightarrow> replayHistory_loop env (e1\<lparr>lastSequenceID := SequenceID event\<rparr>) events)"

definition replayHistory ::
  "('f, 'h) env \<Rightarrow> ('f, 'h) executor \<Rightarrow> Event list \<Rightarrow> fault option \<times> ('f, 'h) executor" where
  "replayHistory env e history =
     replayHistory_loop env (e\<lparr>workflowState := SetReplaying (workflowState e) True\<rparr>) history"

text \<open>
  The loop of \<^verbatim>\<open>executeNewEvents\<close>: the outcome, the index \<open>i\<close> at which it stopped (the
  number of events handled without error) and the executor.
\<close>

fun executeNewEvents_loop ::
  "('f, 'h) env \<Rightarrow> ('f, 'h) executor \<Rightarrow> Event list \<Rightarrow> fault option \<times> nat \<times> ('f, 'h) executor" where
  "executeNewEvents_loop env e [] = (None, 0, e)"
| "executeNewEvents_loop env e (event # events) =
     (case executeEvent env e event of
        (Some err, e1) \<Rightarrow> (Some err, 0, e1)
      | (None, e1) \<Rightarrow>
          (case executeNewEvents_loop env e1 events of (res, i, e2) \<Rightarrow> (res, Suc i, e2)))"

definition executeNewEvents ::
  "('f, 'h) env \<Rightarrow> ('f, 'h) executor \<Rightarrow> Event list \<Rightarrow> (Event list \<times> fault option) \<times> ('f, 'h) executor" where
  "executeNewEvents env e events =
     (case executeNewEvents_loop env (e\<lparr>workflowState := SetReplaying (workflowState e) False\<rparr>) events of
        (Some err, i, e1) \<Rightarrow> ((take i events, Some err), e1)
      | (None, i, e1) \<Rightarrow>
          (case workflow e1 of
             None \<Rightarrow> (([], Some (Panic ''nil pointer dereference'')), e1)
           | Some w \<Rightarrow>
               if wfCompleted env w (memory e1) then
                 ((events, None),
                  workflowCompleted e1 (wfResult env w (memory e1)) (wfError env w (memory e1)))
               else ((events, None), e1)))"

subsection \<open>ExecuteTask\<close>

definition nextSequenceID :: "('f, 'h) executor \<Rightarrow> int64 \<times> ('f, 'h) executor" where
  "nextSequenceID e = (lastSequenceID e + 1, e\<lparr>lastSequenceID := lastSequenceID e + 1\<rparr>)"

text \<open>The loop \<^verbatim>\<open>for i := range executedEvents\<close> that sets the sequence ids.\<close>

fun setSequenceIDs ::
  "('f, 'h) executor \<Rightarrow> Event list \<Rightarrow> Event list \<times> ('f, 'h) executor" where
  "setSequenceIDs e [] = ([], e)"
| "setSequenceIDs e (event # events) =
     (case nextSequenceID e of
        (i, e1) \<Rightarrow>
          (case setSequenceIDs e1 events of
             (events', e2) \<Rightarrow> (event\<lparr>SequenceID := i\<rparr> # events', e2)))"

text \<open>
  Lines 112 to 138: the commands are processed, the events they produce are appended to
  the executed events, every executed event gets the next sequence id, and the result is
  built. An error of \<^verbatim>\<open>processCommands\<close> is returned wrapped; a panic unwinds.
\<close>

definition finishTask ::
  "('f, 'h) env \<Rightarrow> ('f, 'h) executor \<Rightarrow> Task \<Rightarrow> Event list \<Rightarrow> (fault + ExecutionResult) \<times> ('f, 'h) executor" where
  "finishTask env e t executedEvents =
     (case processCommands env e t of
        (Inl (Panic p), e2) \<Rightarrow> (Inl (Panic p), e2)
      | (Inl (Error m), e2) \<Rightarrow> (Inl (Error (''processing commands: '' @ m)), e2)
      | (Inr r, e2) \<Rightarrow>
          (case setSequenceIDs e2 (executedEvents @ newEvents r) of
             (executedEvents', e3) \<Rightarrow>
               (Inr \<lparr>Completed = completed r, Executed = executedEvents',
                     ActivityEvents = activityEvents r,
                     WorkflowEvents = workflowEvents r\<rparr>, e3)))"

text \<open>
  Lines 95 to 110, followed by the lines above: the \<open>WorkflowTaskStarted\<close> event is
  created and put before the task's new events; unless they are skipped, the events are
  executed, and an error of the execution completes the workflow with that error.
\<close>

definition executeAndProcess ::
  "('f, 'h) env \<Rightarrow> ('f, 'h) executor \<Rightarrow> Task \<Rightarrow> bool \<Rightarrow> (fault + ExecutionResult) \<times> ('f, 'h) executor" where
  "executeAndProcess env e t skipNewEvents =
     (case createNewEvent env (created e) EventType_WorkflowTaskStarted WorkflowTaskStartedAttributes [] of
        (taskStarted, k) \<Rightarrow>
          (let e0 = e\<lparr>created := k\<rparr>;
               toExecute = taskStarted # NewEvents t
           in if \<not> skipNewEvents then
                (case executeNewEvents env e0 toExecute of
                   ((executedEvents, Some (Panic p)), e1) \<Rightarrow> (Inl (Panic p), e1)
                 | ((executedEvents, Some (Error m)), e1) \<Rightarrow>
                     finishTask env (workflowCompleted e1 None (Some m)) t executedEvents
                 | ((executedEvents, None), e1) \<Rightarrow> finishTask env e1 t executedEvents)
              else finishTask env e0 t [taskStarted]))"

text \<open>
  \<^verbatim>\<open>ExecuteTask\<close>. The comparisons of the sequence ids are signed. The executor is
  returned with the result: the method changes it in place, also when it returns an
  error.
\<close>

definition ExecuteTask ::
  "('f, 'h) env \<Rightarrow> ('f, 'h) executor \<Rightarrow> Task \<Rightarrow> (fault + ExecutionResult) \<times> ('f, 'h) executor" where
  "ExecuteTask env e t =
     (let e0 = e\<lparr>workflowState := ClearCommands (workflowState e)\<rparr> in
      if sint (lastSequenceID e0) < sint (LastSequenceID t) then
        (case GetWorkflowInstanceHistory env (Task_WorkflowInstance t) (lastSequenceID e0) of
           Inl err \<Rightarrow> (Inl (Error (''getting workflow history: '' @ err)), e0)
         | Inr h \<Rightarrow>
             (case replayHistory env e0 h of
                (Some (Panic p), e1) \<Rightarrow> (Inl (Panic p), e1)
              | (Some (Error m), e1) \<Rightarrow>
                  (let e2 = workflowCompleted e1 None (Some m) in
                   if LastSequenceID t \<noteq> lastSequenceID e2 then
                     (Inl (Error ''even after fetching history and replaying history executor state does not match task''), e2)
                   else executeAndProcess env e2 t True)
              | (None, e1) \<Rightarrow>
                  if LastSequenceID t \<noteq> lastSequenceID e1 then
                    (Inl (Error ''even after fetching history and replaying history executor state does not match task''), e1)
                  else executeAndProcess env e1 t False))
      else if sint (LastSequenceID t) < sint (lastSequenceID e0) then
        (Inl (Error ''task has older history than current state, cannot execute''), e0)
      else executeAndProcess env e0 t False)"

text \<open>
  \<^verbatim>\<open>NewExecutor\<close>: no workflow object yet, a fresh workflow state, sequence id zero.
  Modelled from the spec: \<^verbatim>\<open>workflowstate.NewWorkflowState\<close> is not in the sources; a
  fresh workflow state has no commands, no futures and no signals, is not replaying, and
  its schedule event id counter is zero. The initial shared memory is passed in.
\<close>

definition NewWorkflowState :: "WorkflowInstance \<Rightarrow> Time \<Rightarrow> 'h WfState" where
  "NewWorkflowState i now =
     \<lparr>Instance = i, scheduleEventID = 0, commands = [], pendingFutures = Map.empty,
      replaying = False, time = now, pendingSignals = (\<lambda>name. [])\<rparr>"

definition NewExecutor :: "('f, 'h) env \<Rightarrow> WorkflowInstance \<Rightarrow> 'h \<Rightarrow> ('f, 'h) executor" where
  "NewExecutor env i m =
     \<lparr>workflow = None, workflowState = NewWorkflowState i (clockNow env 0), workflowCtx = False,
      memory = m, lastSequenceID = 0, created = 0\<rparr>"

subsection \<open>Well-formed commands\<close>

text \<open>
  A command as the constructors of package \<^verbatim>\<open>command\<close> build it: its type is one of the
  seven command types and its attributes are the attributes of that type.
\<close>

definition wellFormedCommand :: "Command \<Rightarrow> bool" where
  "wellFormedCommand c =
     (case Command_Type c of
        CommandType_ScheduleActivity \<Rightarrow>
          (case Command_Attr c of ScheduleActivityTaskCommandAttr name inputs \<Rightarrow> True | _ \<Rightarrow> False)
      | CommandType_ScheduleSubWorkflow \<Rightarrow>
          (case Command_Attr c of ScheduleSubWorkflowCommandAttr i name inputs \<Rightarrow> True | _ \<Rightarrow> False)
      | CommandType_CancelSubWorkflow \<Rightarrow>
          (case Command_Attr c of CancelSubWorkflowCommandAttr i \<Rightarrow> True | _ \<Rightarrow> False)
      | CommandType_SideEffect \<Rightarrow>
          (case Command_Attr c of SideEffectCommandAttr result \<Rightarrow> True | _ \<Rightarrow> False)
      | CommandType_ScheduleTimer \<Rightarrow>
          (case Command_Attr c of ScheduleTimerCommandAttr at \<Rightarrow> True | _ \<Rightarrow> False)
      | CommandType_CancelTimer \<Rightarrow>
          (case Command_Attr c of CancelTimerCommandAttr timer \<Rightarrow> True | _ \<Rightarrow> False)
      | CommandType_CompleteWorkflow \<Rightarrow>
          (case Command_Attr c of CompleteWorkflowCommandAttr result err \<Rightarrow> True | _ \<Rightarrow> False)
      | CommandType_Other n \<Rightarrow> False)"

subsection \<open>The event type that matches a command type\<close>

text \<open>
  The event type into which \<^verbatim>\<open>processCommands\<close> translates a command of each type (the
  event appended to the history for it; for \<open>CancelTimer\<close>, the event sent to the
  instance itself).
\<close>

definition matchingEventType :: "CommandType \<Rightarrow> EventType" where
  "matchingEventType ty =
     (case ty of
        CommandType_ScheduleActivity \<Rightarrow> EventType_ActivityScheduled
      | CommandType_ScheduleSubWorkflow \<Rightarrow> EventType_SubWorkflowScheduled
      | CommandType_CancelSubWorkflow \<Rightarrow> EventType_SubWorkflowCancellationRequested
      | CommandType_SideEffect \<Rightarrow> EventType_SideEffectResult
      | CommandType_ScheduleTimer \<Rightarrow> EventType_TimerScheduled
      | CommandType_CancelTimer \<Rightarrow> EventType_TimerCanceled
      | CommandType_CompleteWorkflow \<Rightarrow> EventType_WorkflowExecutionFinished
      | CommandType_Other n \<Rightarrow> EventType_Other n)"

subsection \<open>A sample workflow and sample data\<close>

text \<open>
  Concrete collaborators for the instances below: a registry that knows the workflow
  \<open>W\<close>, a workflow function that never completes and issues no commands, whose memory
  is a counter (a resume adds one, a resolved future adds ten), and builders for
  executors, commands and history events.
\<close>

definition sampleInstance :: WorkflowInstance where
  "sampleInstance = \<lparr>InstanceID = ''instance'', ExecutionID = ''execution'',
     ParentInstanceID = [], ParentEventID = 0\<rparr>"

definition sampleEnv :: "(nat, nat) env" where
  "sampleEnv =
     \<lparr>clockNow = (\<lambda>k. int k), timeNow = (\<lambda>k. 1000 + int k), newEventID = (\<lambda>k. ''event''),
      GetWorkflow = (\<lambda>name. if name = ''W'' then Some 0 else None),
      GetWorkflowInstanceHistory = (\<lambda>i after. Inr []),
      wfExecute = (\<lambda>w inputs canceled (m, s). (None, m, s)),
      wfContinue = (\<lambda>w canceled (m, s). (None, Suc m, s)),
      wfCompleted = (\<lambda>w m. False), wfResult = (\<lambda>w m. None), wfError = (\<lambda>w m. None),
      setInstance = (\<lambda>c i m. m)\<rparr>"

definition sampleExecutor ::
  "Command list \<Rightarrow> (int64 \<rightharpoonup> nat DecodingSettable) \<Rightarrow> (nat, nat) executor" where
  "sampleExecutor cs futures =
     \<lparr>workflow = Some 0,
      workflowState = \<lparr>Instance = sampleInstance, scheduleEventID = 2, commands = cs,
        pendingFutures = futures, replaying = False, time = 0, pendingSignals = (\<lambda>n. [])\<rparr>,
      workflowCtx = False, memory = 0, lastSequenceID = 0, created = 0\<rparr>"

definition sampleCommand :: "int64 \<Rightarrow> CommandType \<Rightarrow> CommandAttr \<Rightarrow> Command" where
  "sampleCommand i ty a =
     \<lparr>Command_ID = i, Command_State = CommandState_Pending, Command_Type = ty, Command_Attr = a\<rparr>"

definition sampleEvent :: "EventType \<Rightarrow> Attributes \<Rightarrow> int64 \<Rightarrow> int64 \<Rightarrow> Event" where
  "sampleEvent ty a scheduleID seqID =
     \<lparr>ID = ''history'', SequenceID = seqID, Type = ty, Timestamp = 5,
      ScheduleEventID = scheduleID, VisibleAt = None, Attributes = a\<rparr>"

definition sampleSettable :: "nat DecodingSettable" where
  "sampleSettable v err m = (None, m + 10)"

definition sampleTask :: "WorkflowInstance \<Rightarrow> int64 \<Rightarrow> Event list \<Rightarrow> Task" where
  "sampleTask inst lastID events =
     \<lparr>Task_ID = ''task'', Task_WorkflowInstance = inst, LastSequenceID = lastID, NewEvents = events\<rparr>"

definition sampleChild :: WorkflowInstance where
  "sampleChild = \<lparr>InstanceID = ''child'', ExecutionID = ''execution'',
     ParentInstanceID = ''parent'', ParentEventID = 5\<rparr>"

definition sampleCommands :: "Command list" where
  "sampleCommands =
     [sampleCommand 1 CommandType_ScheduleTimer (ScheduleTimerCommandAttr 7),
      sampleCommand 2 CommandType_CancelTimer (CancelTimerCommandAttr 1),
      sampleCommand 3 CommandType_ScheduleActivity (ScheduleActivityTaskCommandAttr ''A'' []),
      sampleCommand 4 CommandType_CompleteWorkflow (CompleteWorkflowCommandAttr None ''failed'')]"

text \<open>
  A workflow that, when started, schedules the activity \<open>A\<close> (schedule event id 1) and
  a timer (schedule event id 2) and registers a future for each; and a history in which
  the previous execution had scheduled the activity \<open>B\<close> instead.
\<close>

definition schedulingEnv :: "(nat, nat) env" where
  "schedulingEnv =
     sampleEnv\<lparr>wfExecute := (\<lambda>w inputs canceled (m, s).
        (None, m,
         s\<lparr>scheduleEventID := 2,
           commands := commands s @
             [sampleCommand 1 CommandType_ScheduleActivity (ScheduleActivityTaskCommandAttr ''A'' inputs),
              sampleCommand 2 CommandType_ScheduleTimer (ScheduleTimerCommandAttr 7)],
           pendingFutures := (pendingFutures s)(1 \<mapsto> sampleSettable, 2 \<mapsto> sampleSettable)\<rparr>))\<rparr>"

definition determinismHistory :: "Event list" where
  "determinismHistory =
     [sampleEvent EventType_WorkflowExecutionStarted (ExecutionStartedAttributes ''W'' []) 0 1,
      sampleEvent EventType_ActivityScheduled (ActivityScheduledAttributes ''B'' []) 1 2]"

section \<open>Properties\<close>

subsection \<open>The command log\<close>

lemma removeCommand_find:
  "fst (removeCommand i cs) = find (\<lambda>c. Command_ID c = i) cs"
  by (induction cs) (auto split: prod.splits)

lemma find_Command_ID:
  "find (\<lambda>c. Command_ID c = i) cs = Some a \<Longrightarrow> Command_ID a = i"
  by (induction cs) (auto split: if_splits)

lemma removeCommand_remove1:
  "snd (removeCommand i cs) =
     (case find (\<lambda>c. Command_ID c = i) cs of None \<Rightarrow> cs | Some c \<Rightarrow> remove1 c cs)"
  by (induction cs) (auto split: prod.splits option.splits dest: find_Command_ID)

lemma removeCommandByEventID_eq:
  "removeCommandByEventID e i =
     (find (\<lambda>c. Command_ID c = i) (commands (workflowState e)),
      e\<lparr>workflowState := (workflowState e)\<lparr>commands :=
          (case find (\<lambda>c. Command_ID c = i) (commands (workflowState e)) of
             None \<Rightarrow> commands (workflowState e)
           | Some c \<Rightarrow> remove1 c (commands (workflowState e)))\<rparr>\<rparr>)"
  using removeCommand_find [of i "commands (workflowState e)"]
        removeCommand_remove1 [of i "commands (workflowState e)"]
  by (cases "removeCommand i (commands (workflowState e))")
     (simp add: removeCommandByEventID_def RemoveCommandByEventID_def)

lemmas sample_defs = sampleInstance_def sampleEnv_def sampleExecutor_def sampleCommand_def
  sampleEvent_def sampleSettable_def

subsection \<open>Event handlers\<close>

text \<open>
  C6: \<^verbatim>\<open>handleActivityScheduled\<close> removes the first pending command whose id is the event's
  schedule event id. It returns an error exactly when that command is absent, is not of
  type \<open>ScheduleActivity\<close>, or names another activity than the event; it returns nil
  exactly when the command is a \<open>ScheduleActivity\<close> command for the event's activity. In
  every case the executor changes only by the removal: no future is resolved and the
  shared memory is untouched. (A \<open>ScheduleActivity\<close> command whose attributes have
  another type makes the type assertion panic, which is neither outcome.)
\<close>

theorem handleActivityScheduled_outcome:
  "((\<exists>m. fst (handleActivityScheduled e event name) = Some (Error m)) \<longleftrightarrow>
      (case find (\<lambda>c. Command_ID c = ScheduleEventID event) (commands (workflowState e)) of
         None \<Rightarrow> True
       | Some c \<Rightarrow> Command_Type c \<noteq> CommandType_ScheduleActivity \<or>
           (\<exists>caName caInputs. Command_Attr c = ScheduleActivityTaskCommandAttr caName caInputs \<and> caName \<noteq> name)))
   \<and> (fst (handleActivityScheduled e event name) = None \<longleftrightarrow>
      (case find (\<lambda>c. Command_ID c = ScheduleEventID event) (commands (workflowState e)) of
         None \<Rightarrow> False
       | Some c \<Rightarrow> Command_Type c = CommandType_ScheduleActivity \<and>
           (\<exists>caInputs. Command_Attr c = ScheduleActivityTaskCommandAttr name caInputs)))
   \<and> snd (handleActivityScheduled e event name) =
       e\<lparr>workflowState := (workflowState e)\<lparr>commands :=
          (case find (\<lambda>c. Command_ID c = ScheduleEventID event) (commands (workflowState e)) of
             None \<Rightarrow> commands (workflowState e)
           | Some c \<Rightarrow> remove1 c (commands (workflowState e)))\<rparr>\<rparr>"
  by (auto simp: handleActivityScheduled_def removeCommandByEventID_eq
           split: option.splits CommandAttr.splits)

theorem handleActivityScheduled_outcome_witness:
  "fst (handleActivityScheduled
          (sampleExecutor [sampleCommand 1 CommandType_ScheduleActivity (ScheduleActivityTaskCommandAttr ''A'' [])] Map.empty)
          (sampleEvent EventType_ActivityScheduled (ActivityScheduledAttributes ''A'' []) 1 1) ''A'') = None
   \<and> commands (workflowState (snd (handleActivityScheduled
          (sampleExecutor [sampleCommand 1 CommandType_ScheduleActivity (ScheduleActivityTaskCommandAttr ''A'' [])] Map.empty)
          (sampleEvent EventType_ActivityScheduled (ActivityScheduledAttributes ''A'' []) 1 1) ''A''))) = []
   \<and> (\<exists>m. fst (handleActivityScheduled
          (sampleExecutor [sampleCommand 1 CommandType_ScheduleActivity (ScheduleActivityTaskCommandAttr ''A'' [])] Map.empty)
          (sampleEvent EventType_ActivityScheduled (ActivityScheduledAttributes ''B'' []) 1 1) ''B'') = Some (Error m))
   \<and> (\<exists>m. fst (handleActivityScheduled
          (sampleExecutor [sampleCommand 1 CommandType_ScheduleTimer (ScheduleTimerCommandAttr 7)] Map.empty)
          (sampleEvent EventType_ActivityScheduled (ActivityScheduledAttributes ''A'' []) 1 1) ''A'') = Some (Error m))
   \<and> (\<exists>m. fst (handleActivityScheduled
          (sampleExecutor [] Map.empty)
          (sampleEvent EventType_ActivityScheduled (ActivityScheduledAttributes ''A'' []) 1 1) ''A'') = Some (Error m))"
  using handleActivityScheduled_outcome
          [of "sampleExecutor [sampleCommand 1 CommandType_ScheduleActivity (ScheduleActivityTaskCommandAttr ''A'' [])] Map.empty"
              "sampleEvent EventType_ActivityScheduled (ActivityScheduledAttributes ''A'' []) 1 1" "''A''"]
        handleActivityScheduled_outcome
          [of "sampleExecutor [sampleCommand 1 CommandType_ScheduleActivity (ScheduleActivityTaskCommandAttr ''A'' [])] Map.empty"
              "sampleEvent EventType_ActivityScheduled (ActivityScheduledAttributes ''B'' []) 1 1" "''B''"]
        handleActivityScheduled_outcome
          [of "sampleExecutor [sampleCommand 1 CommandType_ScheduleTimer (ScheduleTimerCommandAttr 7)] Map.empty"
              "sampleEvent EventType_ActivityScheduled (ActivityScheduledAttributes ''A'' []) 1 1" "''A''"]
        handleActivityScheduled_outcome
          [of "sampleExecutor [] Map.empty"
              "sampleEvent EventType_ActivityScheduled (ActivityScheduledAttributes ''A'' []) 1 1" "''A''"]
  by (simp add: sample_defs)

text \<open>
  C5: when no future is registered for the schedule event id of a \<open>TimerFired\<close> or
  \<open>TimerCanceled\<close> event, the handler returns nil and leaves the executor as it is. When
  a future \<open>f\<close> is registered, the matching command is removed from the log
  (\<open>e1\<close>), \<open>f\<close> is called with no value and no error (\<open>e2\<close>) and the workflow is
  resumed, the handler returning what the resume returns (an error of \<open>f\<close> is returned
  as \<open>setting result\<close> instead of resuming). \<^verbatim>\<open>handleTimerFired\<close> fails before
  resolving the future when no command was removed or the removed command is not a
  \<open>ScheduleTimer\<close> command.
\<close>

theorem timer_handlers:
  "(case FutureByScheduleEventID (workflowState e) (ScheduleEventID event) of
      None \<Rightarrow>
        handleTimerFired env e event = (None, e) \<and> handleTimerCanceled env e event = (None, e)
    | Some f \<Rightarrow>
        (let c = find (\<lambda>c. Command_ID c = ScheduleEventID event) (commands (workflowState e));
             e1 = e\<lparr>workflowState := (workflowState e)\<lparr>commands :=
                    (case c of None \<Rightarrow> commands (workflowState e)
                     | Some cmd \<Rightarrow> remove1 cmd (commands (workflowState e)))\<rparr>\<rparr>;
             r = fst (f None None (memory e));
             e2 = e1\<lparr>memory := snd (f None None (memory e))\<rparr>;
             resolved = (case r of None \<Rightarrow> workflow_Continue env e2
                         | Some m \<Rightarrow> (Some (Error (''setting result: '' @ m)), e2))
         in handleTimerCanceled env e event = resolved
            \<and> handleTimerFired env e event =
                (case c of
                   None \<Rightarrow> (Some (Error ''previous workflow execution scheduled a timer''), e1)
                 | Some cmd \<Rightarrow>
                     if Command_Type cmd = CommandType_ScheduleTimer then resolved
                     else (Some (Error (''previous workflow execution scheduled a timer, this time: ''
                                        @ CommandType_String (Command_Type cmd))), e1))))"
  by (auto simp: handleTimerFired_def handleTimerCanceled_def removeCommandByEventID_eq
        setFuture_def Let_def split: option.splits prod.splits)

theorem timer_handlers_witness:
  "handleTimerFired sampleEnv (sampleExecutor [] Map.empty)
     (sampleEvent EventType_TimerFired (TimerFiredAttributes 7) 1 1) = (None, sampleExecutor [] Map.empty)
   \<and> handleTimerCanceled sampleEnv (sampleExecutor [] Map.empty)
     (sampleEvent EventType_TimerCanceled TimerCanceledAttributes 1 1) = (None, sampleExecutor [] Map.empty)
   \<and> fst (handleTimerFired sampleEnv
        (sampleExecutor [sampleCommand 1 CommandType_ScheduleTimer (ScheduleTimerCommandAttr 7)] [1 \<mapsto> sampleSettable])
        (sampleEvent EventType_TimerFired (TimerFiredAttributes 7) 1 1)) = None
   \<and> memory (snd (handleTimerFired sampleEnv
        (sampleExecutor [sampleCommand 1 CommandType_ScheduleTimer (ScheduleTimerCommandAttr 7)] [1 \<mapsto> sampleSettable])
        (sampleEvent EventType_TimerFired (TimerFiredAttributes 7) 1 1))) = 11
   \<and> commands (workflowState (snd (handleTimerFired sampleEnv
        (sampleExecutor [sampleCommand 1 CommandType_ScheduleTimer (ScheduleTimerCommandAttr 7)] [1 \<mapsto> sampleSettable])
        (sampleEvent EventType_TimerFired (TimerFiredAttributes 7) 1 1)))) = []
   \<and> fst (handleTimerFired sampleEnv (sampleExecutor [] [1 \<mapsto> sampleSettable])
        (sampleEvent EventType_TimerFired (TimerFiredAttributes 7) 1 1))
       = Some (Error ''previous workflow execution scheduled a timer'')
   \<and> memory (snd (handleTimerFired sampleEnv (sampleExecutor [] [1 \<mapsto> sampleSettable])
        (sampleEvent EventType_TimerFired (TimerFiredAttributes 7) 1 1))) = 0
   \<and> fst (handleTimerCanceled sampleEnv (sampleExecutor [] [1 \<mapsto> sampleSettable])
        (sampleEvent EventType_TimerCanceled TimerCanceledAttributes 1 1)) = None
   \<and> memory (snd (handleTimerCanceled sampleEnv (sampleExecutor [] [1 \<mapsto> sampleSettable])
        (sampleEvent EventType_TimerCanceled TimerCanceledAttributes 1 1))) = 11"
  using timer_handlers [where e = "sampleExecutor [] Map.empty"
          and event = "sampleEvent EventType_TimerFired (TimerFiredAttributes 7) 1 1" and env = sampleEnv]
        timer_handlers [where e = "sampleExecutor [] Map.empty"
          and event = "sampleEvent EventType_TimerCanceled TimerCanceledAttributes 1 1" and env = sampleEnv]
        timer_handlers [where e = "sampleExecutor [sampleCommand 1 CommandType_ScheduleTimer (ScheduleTimerCommandAttr 7)] [1 \<mapsto> sampleSettable]"
          and event = "sampleEvent EventType_TimerFired (TimerFiredAttributes 7) 1 1" and env = sampleEnv]
        timer_handlers [where e = "sampleExecutor [] [1 \<mapsto> sampleSettable]"
          and event = "sampleEvent EventType_TimerFired (TimerFiredAttributes 7) 1 1" and env = sampleEnv]
        timer_handlers [where e = "sampleExecutor [] [1 \<mapsto> sampleSettable]"
          and event = "sampleEvent EventType_TimerCanceled TimerCanceledAttributes 1 1" and env = sampleEnv]
  by (simp add: sample_defs FutureByScheduleEventID_def workflow_Continue_def Let_def)

text \<open>
  C9 (as amended): when no future is registered for the event's schedule event id,
  \<^verbatim>\<open>handleSideEffectResult\<close> returns its error and changes nothing. When a future \<open>f\<close>
  is registered, \<open>f\<close> is called with the recorded result (the error \<open>f\<close> returns is
  dropped), the workflow is resumed on the unchanged workflow state, and the handler
  returns what the resume returns, an error included. The handler itself removes no
  command: the workflow function is handed the command log as it was.
\<close>

theorem handleSideEffectResult_outcome:
  "(case FutureByScheduleEventID (workflowState e) (ScheduleEventID event) of
      None \<Rightarrow>
        handleSideEffectResult env e event result =
          (Some (Error ''no pending future found for side effect result event''), e)
    | Some f \<Rightarrow>
        handleSideEffectResult env e event result =
          workflow_Continue env (e\<lparr>memory := snd (f result None (memory e))\<rparr>)
        \<and> (case workflow e of
              None \<Rightarrow> True
            | Some w \<Rightarrow>
                (let out = wfContinue env w (workflowCtx e)
                             (snd (f result None (memory e)), workflowState e)
                 in fst (handleSideEffectResult env e event result) = map_option Error (fst out)
                    \<and> workflowState (snd (handleSideEffectResult env e event result)) = snd (snd out))))"
  by (auto simp: handleSideEffectResult_def setFuture_def workflow_Continue_def Let_def
           split: option.splits prod.splits)

theorem handleSideEffectResult_outcome_witness:
  "handleSideEffectResult sampleEnv (sampleExecutor [] Map.empty)
      (sampleEvent EventType_SideEffectResult (SideEffectResultAttributes None) 1 1) None
     = (Some (Error ''no pending future found for side effect result event''), sampleExecutor [] Map.empty)
   \<and> fst (handleSideEffectResult sampleEnv
        (sampleExecutor [sampleCommand 1 CommandType_SideEffect (SideEffectCommandAttr None)] [1 \<mapsto> sampleSettable])
        (sampleEvent EventType_SideEffectResult (SideEffectResultAttributes None) 1 1) None) = None
   \<and> map Command_ID (commands (workflowState (snd (handleSideEffectResult sampleEnv
        (sampleExecutor [sampleCommand 1 CommandType_SideEffect (SideEffectCommandAttr None)] [1 \<mapsto> sampleSettable])
        (sampleEvent EventType_SideEffectResult (SideEffectResultAttributes None) 1 1) None)))) = [1]"
  using handleSideEffectResult_outcome [where e = "sampleExecutor [] Map.empty"
          and event = "sampleEvent EventType_SideEffectResult (SideEffectResultAttributes None) 1 1" and env = sampleEnv and result = None]
        handleSideEffectResult_outcome [where e = "sampleExecutor [sampleCommand 1 CommandType_SideEffect (SideEffectCommandAttr None)] [1 \<mapsto> sampleSettable]"
          and event = "sampleEvent EventType_SideEffectResult (SideEffectResultAttributes None) 1 1" and env = sampleEnv and result = None]
  by (simp add: sample_defs FutureByScheduleEventID_def workflow_Continue_def Let_def)

text \<open>
  The claim C9 as first stated (an error exactly when no future is registered) fails: with
  a future registered and a workflow whose resume fails, the handler returns that error.
\<close>

theorem handleSideEffectResult_error_counterexample:
  "FutureByScheduleEventID
      (workflowState (sampleExecutor [sampleCommand 1 CommandType_SideEffect (SideEffectCommandAttr None)]
                        [1 \<mapsto> sampleSettable])) 1 \<noteq> None
   \<and> fst (handleSideEffectResult
            (sampleEnv\<lparr>wfContinue := (\<lambda>w canceled (m, s). (Some ''workflow failed'', m, s))\<rparr>)
            (sampleExecutor [sampleCommand 1 CommandType_SideEffect (SideEffectCommandAttr None)]
               [1 \<mapsto> sampleSettable])
            (sampleEvent EventType_SideEffectResult (SideEffectResultAttributes None) 1 1) None)
       = Some (Error ''workflow failed'')"
  by (simp add: sample_defs FutureByScheduleEventID_def handleSideEffectResult_def setFuture_def
        workflow_Continue_def)

subsection \<open>processCommands\<close>

text \<open>
  The state of a command does not matter to its translation, and what the loop appends
  for a list of commands is what it appends for each of them, in order.
\<close>

lemma processCommand_State [simp]:
  "processCommand env inst (c\<lparr>Command_State := s\<rparr>) r k = processCommand env inst c r k"
  by (simp add: processCommand_def split: CommandType.splits CommandAttr.splits)

lemma processCommands_loop_emits:
  assumes run: "processCommands_loop env inst cs r k = (Inr r', cs', k')"
    and step: "\<And>c r k r1 k1. processCommand env inst c r k = Inr (r1, k1) \<Longrightarrow>
       \<exists>ns as ws. newEvents r1 = newEvents r @ ns \<and> activityEvents r1 = activityEvents r @ as \<and>
          workflowEvents r1 = workflowEvents r @ ws \<and> S [c] ns as ws"
    and empty: "S [] [] [] []"
    and app: "\<And>c cs n1 a1 w1 n2 a2 w2.
       S [c] n1 a1 w1 \<Longrightarrow> S cs n2 a2 w2 \<Longrightarrow> S (c # cs) (n1 @ n2) (a1 @ a2) (w1 @ w2)"
  shows "\<exists>ns as ws. newEvents r' = newEvents r @ ns \<and> activityEvents r' = activityEvents r @ as \<and>
          workflowEvents r' = workflowEvents r @ ws \<and> S cs ns as ws"
  using run
proof (induction cs arbitrary: r k cs' k')
  case Nil
  then show ?case using empty by simp
next
  case (Cons c cs)
  from Cons.prems obtain r1 k1 cs1 where
    first: "processCommand env inst c r k = Inr (r1, k1)" and
    rest: "processCommands_loop env inst cs r1 k1 = (Inr r', cs1, k')"
    by (auto simp: Let_def split: sum.splits prod.splits)
  from step [OF first] obtain n1 a1 w1 where
    h1: "newEvents r1 = newEvents r @ n1" "activityEvents r1 = activityEvents r @ a1"
        "workflowEvents r1 = workflowEvents r @ w1" "S [c] n1 a1 w1"
    by blast
  from Cons.IH [OF rest] obtain n2 a2 w2 where
    h2: "newEvents r' = newEvents r1 @ n2" "activityEvents r' = activityEvents r1 @ a2"
        "workflowEvents r' = workflowEvents r1 @ w2" "S cs n2 a2 w2"
    by blast
  have "S (c # cs) (n1 @ n2) (a1 @ a2) (w1 @ w2)"
    using h1(4) h2(4) by (rule app)
  with h1 h2 show ?case by auto
qed

lemma processCommands_emits:
  assumes run: "fst (processCommands env e t) = Inr r"
    and step: "\<And>c r k r1 k1. processCommand env (Task_WorkflowInstance t) c r k = Inr (r1, k1) \<Longrightarrow>
       \<exists>ns as ws. newEvents r1 = newEvents r @ ns \<and> activityEvents r1 = activityEvents r @ as \<and>
          workflowEvents r1 = workflowEvents r @ ws \<and> S [c] ns as ws"
    and empty: "S [] [] [] []"
    and app: "\<And>c cs n1 a1 w1 n2 a2 w2.
       S [c] n1 a1 w1 \<Longrightarrow> S cs n2 a2 w2 \<Longrightarrow> S (c # cs) (n1 @ n2) (a1 @ a2) (w1 @ w2)"
  shows "S (commands (workflowState e)) (newEvents r) (activityEvents r) (workflowEvents r)"
proof -
  obtain cs' k' where loop:
    "processCommands_loop env (Task_WorkflowInstance t) (commands (workflowState e))
       \<lparr>completed = False, newEvents = [], activityEvents = [], workflowEvents = []\<rparr> (created e)
     = (Inr r, cs', k')"
    using run by (auto simp: processCommands_def split: prod.splits)
  from processCommands_loop_emits [of env _ _ _ _ r cs' k' S, OF loop step empty app]
  show ?thesis by auto
qed

lemma list_all2_filter_Cons_append:
  assumes "list_all2 R (filter P [c]) (filter Q n1)" "list_all2 R (filter P cs) (filter Q n2)"
  shows "list_all2 R (filter P (c # cs)) (filter Q (n1 @ n2))"
proof -
  have "filter P (c # cs) = filter P [c] @ filter P cs" by simp
  moreover have "filter Q (n1 @ n2) = filter Q n1 @ filter Q n2" by simp
  ultimately show ?thesis using assms by (simp only: list_all2_appendI)
qed

lemma filter_append_Nil:
  "filter Q w1 = [] \<Longrightarrow> filter Q w2 = [] \<Longrightarrow> filter Q (w1 @ w2) = []"
  by simp

lemmas processCommands_eval = processCommands_def processCommand_def createNewEvent_def
  NewPendingEvent_def NewWorkflowCancellationEvent_def ScheduleEventID_option_def
  VisibleAt_option_def NewWorkflowInstance_def SubWorkflow_def sampleTask_def sampleChild_def
  sampleCommands_def

lemma processCommand_timers:
  assumes "processCommand env inst c r k = Inr (r', k')"
  shows "\<exists>ns as ws. newEvents r' = newEvents r @ ns \<and> activityEvents r' = activityEvents r @ as \<and>
     workflowEvents r' = workflowEvents r @ ws \<and>
     list_all2 (\<lambda>c ev. ScheduleEventID ev = Command_ID c \<and>
          (case Command_Attr c of
             ScheduleTimerCommandAttr at \<Rightarrow> Attributes ev = TimerScheduledAttributes at
           | _ \<Rightarrow> False))
       (filter (\<lambda>c. Command_Type c = CommandType_ScheduleTimer) [c])
       (filter (\<lambda>ev. Type ev = EventType_TimerScheduled) ns) \<and>
     list_all2 (\<lambda>c w. WorkflowInstance w = inst \<and> ScheduleEventID (HistoryEvent w) = Command_ID c \<and>
          (case Command_Attr c of
             ScheduleTimerCommandAttr at \<Rightarrow>
               VisibleAt (HistoryEvent w) = Some at \<and>
               Attributes (HistoryEvent w) = TimerFiredAttributes at
           | _ \<Rightarrow> False))
       (filter (\<lambda>c. Command_Type c = CommandType_ScheduleTimer) [c])
       (filter (\<lambda>w. Type (HistoryEvent w) = EventType_TimerFired) ws)"
  using assms
  by (auto simp: processCommand_def createNewEvent_def NewPendingEvent_def Let_def
        NewWorkflowCancellationEvent_def ScheduleEventID_option_def VisibleAt_option_def
        split: CommandType.splits CommandAttr.splits if_splits)

text \<open>
  C4: when \<^verbatim>\<open>processCommands\<close> succeeds, the \<open>TimerScheduled\<close> events among the new
  events correspond one to one, in order, to the \<open>ScheduleTimer\<close> commands of the log:
  each carries its command's id as schedule event id and the timer's fire time. Likewise
  the \<open>TimerFired\<close> events among the workflow events: each is addressed to the task's
  own instance and carries the command's id, the fire time, and \<open>visibleAt\<close> set to the
  fire time.
\<close>

theorem processCommands_ScheduleTimer:
  assumes "fst (processCommands env e t) = Inr r"
  shows
   "list_all2 (\<lambda>c ev. ScheduleEventID ev = Command_ID c \<and>
          (case Command_Attr c of
             ScheduleTimerCommandAttr at \<Rightarrow> Attributes ev = TimerScheduledAttributes at
           | _ \<Rightarrow> False))
       (filter (\<lambda>c. Command_Type c = CommandType_ScheduleTimer) (commands (workflowState e)))
       (filter (\<lambda>ev. Type ev = EventType_TimerScheduled) (newEvents r)) \<and>
     list_all2 (\<lambda>c w. WorkflowInstance w = Task_WorkflowInstance t \<and> ScheduleEventID (HistoryEvent w) = Command_ID c \<and>
          (case Command_Attr c of
             ScheduleTimerCommandAttr at \<Rightarrow>
               VisibleAt (HistoryEvent w) = Some at \<and>
               Attributes (HistoryEvent w) = TimerFiredAttributes at
           | _ \<Rightarrow> False))
       (filter (\<lambda>c. Command_Type c = CommandType_ScheduleTimer) (commands (workflowState e)))
       (filter (\<lambda>w. Type (HistoryEvent w) = EventType_TimerFired) (workflowEvents r))"
proof (rule processCommands_emits [OF assms, where S = "\<lambda>cs ns as ws.
     list_all2 (\<lambda>c ev. ScheduleEventID ev = Command_ID c \<and>
          (case Command_Attr c of
             ScheduleTimerCommandAttr at \<Rightarrow> Attributes ev = TimerScheduledAttributes at
           | _ \<Rightarrow> False))
       (filter (\<lambda>c. Command_Type c = CommandType_ScheduleTimer) cs)
       (filter (\<lambda>ev. Type ev = EventType_TimerScheduled) ns) \<and>
     list_all2 (\<lambda>c w. WorkflowInstance w = Task_WorkflowInstance t \<and> ScheduleEventID (HistoryEvent w) = Command_ID c \<and>
          (case Command_Attr c of
             ScheduleTimerCommandAttr at \<Rightarrow>
               VisibleAt (HistoryEvent w) = Some at \<and>
               Attributes (HistoryEvent w) = TimerFiredAttributes at
           | _ \<Rightarrow> False))
       (filter (\<lambda>c. Command_Type c = CommandType_ScheduleTimer) cs)
       (filter (\<lambda>w. Type (HistoryEvent w) = EventType_TimerFired) ws)"], goal_cases)
  case (1 c r k r1 k1)
  from processCommand_timers [OF this] show ?case .
next
  case 2
  show ?case by simp
next
  case (3 c cs n1 a1 w1 n2 a2 w2)
  then show ?case by (blast intro: list_all2_filter_Cons_append)
qed

theorem processCommands_ScheduleTimer_witness:
  "\<exists>r. fst (processCommands sampleEnv (sampleExecutor sampleCommands Map.empty)
             (sampleTask sampleInstance 0 [])) = Inr r
     \<and> map ScheduleEventID (filter (\<lambda>ev. Type ev = EventType_TimerScheduled) (newEvents r)) = [1]
     \<and> map (\<lambda>w. (WorkflowInstance w = sampleInstance, ScheduleEventID (HistoryEvent w),
                 VisibleAt (HistoryEvent w)))
         (filter (\<lambda>w. Type (HistoryEvent w) = EventType_TimerFired) (workflowEvents r))
       = [(True, 1, Some 7)]"
proof -
  obtain r where run: "fst (processCommands sampleEnv (sampleExecutor sampleCommands Map.empty)
             (sampleTask sampleInstance 0 [])) = Inr r"
    by (simp add: processCommands_eval sample_defs)
  from processCommands_ScheduleTimer [OF run] run show ?thesis
    by (auto simp: sampleCommands_def sample_defs sampleTask_def list_all2_Cons1)
qed

lemma processCommand_complete:
  assumes "processCommand env inst c r k = Inr (r', k')"
  shows "\<exists>ns as ws. newEvents r' = newEvents r @ ns \<and> activityEvents r' = activityEvents r @ as \<and>
     workflowEvents r' = workflowEvents r @ ws \<and>
     list_all2 (\<lambda>c ev. ScheduleEventID ev = Command_ID c \<and>
          (case Command_Attr c of
             CompleteWorkflowCommandAttr result err \<Rightarrow>
               Attributes ev = ExecutionCompletedAttributes result err
           | _ \<Rightarrow> False))
       (filter (\<lambda>c. Command_Type c = CommandType_CompleteWorkflow) [c])
       (filter (\<lambda>ev. Type ev = EventType_WorkflowExecutionFinished) ns) \<and>
     (if SubWorkflow inst then
        list_all2 (\<lambda>c w. WorkflowInstance w = NewWorkflowInstance (ParentInstanceID inst) [] \<and>
            ScheduleEventID (HistoryEvent w) = ParentEventID inst \<and>
            (case Command_Attr c of
               CompleteWorkflowCommandAttr result err \<Rightarrow>
                 if err \<noteq> [] then
                   Type (HistoryEvent w) = EventType_SubWorkflowFailed \<and>
                   Attributes (HistoryEvent w) = SubWorkflowFailedAttributes err
                 else
                   Type (HistoryEvent w) = EventType_SubWorkflowCompleted \<and>
                   Attributes (HistoryEvent w) = SubWorkflowCompletedAttributes result
             | _ \<Rightarrow> False))
          (filter (\<lambda>c. Command_Type c = CommandType_CompleteWorkflow) [c])
          (filter (\<lambda>w. Type (HistoryEvent w) = EventType_SubWorkflowFailed \<or>
                        Type (HistoryEvent w) = EventType_SubWorkflowCompleted) ws)
      else
        filter (\<lambda>w. Type (HistoryEvent w) = EventType_SubWorkflowFailed \<or>
                      Type (HistoryEvent w) = EventType_SubWorkflowCompleted) ws = [])"
  using assms
  by (auto simp: processCommand_def createNewEvent_def NewPendingEvent_def Let_def
        NewWorkflowCancellationEvent_def ScheduleEventID_option_def VisibleAt_option_def
        split: CommandType.splits CommandAttr.splits if_splits)

lemma processCommand_completed:
  assumes "processCommand env inst c r k = Inr (r', k')"
  shows "completed r' = (completed r \<or> Command_Type c = CommandType_CompleteWorkflow)"
  using assms
  by (auto simp: processCommand_def createNewEvent_def Let_def
        split: CommandType.splits CommandAttr.splits if_splits prod.splits)

lemma processCommands_loop_completed:
  assumes "processCommands_loop env inst cs r k = (Inr r', cs', k')"
  shows "completed r' = (completed r \<or> (\<exists>c \<in> set cs. Command_Type c = CommandType_CompleteWorkflow))"
  using assms
proof (induction cs arbitrary: r k cs' k')
  case Nil
  then show ?case by simp
next
  case (Cons c cs)
  from Cons.prems obtain r1 k1 cs1 where
    first: "processCommand env inst c r k = Inr (r1, k1)" and
    rest: "processCommands_loop env inst cs r1 k1 = (Inr r', cs1, k')"
    by (auto simp: Let_def split: sum.splits prod.splits)
  from processCommand_completed [OF first] Cons.IH [OF rest] show ?case by auto
qed

text \<open>
  C7: when \<^verbatim>\<open>processCommands\<close> succeeds, \<open>completed\<close> is true exactly when the log holds
  a \<open>CompleteWorkflow\<close> command; the \<open>WorkflowExecutionFinished\<close> events among the new
  events correspond one to one, in order, to the \<open>CompleteWorkflow\<close> commands, each with
  the command's id, result and error. If the instance is a sub-workflow, the
  \<open>SubWorkflowFailed\<close> and \<open>SubWorkflowCompleted\<close> workflow events correspond one to
  one to the \<open>CompleteWorkflow\<close> commands: each is addressed to the parent instance,
  carries the instance's parent event id, and is \<open>SubWorkflowFailed\<close> with the error when
  the error string is not empty, \<open>SubWorkflowCompleted\<close> with the result otherwise. If
  the instance is not a sub-workflow there is no such workflow event.
\<close>

theorem processCommands_CompleteWorkflow:
  assumes "fst (processCommands env e t) = Inr r"
  shows
   "completed r = (\<exists>c \<in> set (commands (workflowState e)). Command_Type c = CommandType_CompleteWorkflow) \<and>
     list_all2 (\<lambda>c ev. ScheduleEventID ev = Command_ID c \<and>
          (case Command_Attr c of
             CompleteWorkflowCommandAttr result err \<Rightarrow>
               Attributes ev = ExecutionCompletedAttributes result err
           | _ \<Rightarrow> False))
       (filter (\<lambda>c. Command_Type c = CommandType_CompleteWorkflow) (commands (workflowState e)))
       (filter (\<lambda>ev. Type ev = EventType_WorkflowExecutionFinished) (newEvents r)) \<and>
     (if SubWorkflow (Task_WorkflowInstance t) then
        list_all2 (\<lambda>c w. WorkflowInstance w = NewWorkflowInstance (ParentInstanceID (Task_WorkflowInstance t)) [] \<and>
            ScheduleEventID (HistoryEvent w) = ParentEventID (Task_WorkflowInstance t) \<and>
            (case Command_Attr c of
               CompleteWorkflowCommandAttr result err \<Rightarrow>
                 if err \<noteq> [] then
                   Type (HistoryEvent w) = EventType_SubWorkflowFailed \<and>
                   Attributes (HistoryEvent w) = SubWorkflowFailedAttributes err
                 else
                   Type (HistoryEvent w) = EventType_SubWorkflowCompleted \<and>
                   Attributes (HistoryEvent w) = SubWorkflowCompletedAttributes result
             | _ \<Rightarrow> False))
          (filter (\<lambda>c. Command_Type c = CommandType_CompleteWorkflow) (commands (workflowState e)))
          (filter (\<lambda>w. Type (HistoryEvent w) = EventType_SubWorkflowFailed \<or>
                        Type (HistoryEvent w) = EventType_SubWorkflowCompleted) (workflowEvents r))
      else
        filter (\<lambda>w. Type (HistoryEvent w) = EventType_SubWorkflowFailed \<or>
                      Type (HistoryEvent w) = EventType_SubWorkflowCompleted) (workflowEvents r) = [])"
proof
  obtain cs' k' where loop:
    "processCommands_loop env (Task_WorkflowInstance t) (commands (workflowState e))
       \<lparr>completed = False, newEvents = [], activityEvents = [], workflowEvents = []\<rparr> (created e)
     = (Inr r, cs', k')"
    using assms by (auto simp: processCommands_def split: prod.splits)
  from processCommands_loop_completed [OF loop]
  show "completed r = (\<exists>c \<in> set (commands (workflowState e)). Command_Type c = CommandType_CompleteWorkflow)"
    by simp
next
  show "list_all2 (\<lambda>c ev. ScheduleEventID ev = Command_ID c \<and>
          (case Command_Attr c of
             CompleteWorkflowCommandAttr result err \<Rightarrow>
               Attributes ev = ExecutionCompletedAttributes result err
           | _ \<Rightarrow> False))
       (filter (\<lambda>c. Command_Type c = CommandType_CompleteWorkflow) (commands (workflowState e)))
       (filter (\<lambda>ev. Type ev = EventType_WorkflowExecutionFinished) (newEvents r)) \<and>
     (if SubWorkflow (Task_WorkflowInstance t) then
        list_all2 (\<lambda>c w. WorkflowInstance w = NewWorkflowInstance (ParentInstanceID (Task_WorkflowInstance t)) [] \<and>
            ScheduleEventID (HistoryEvent w) = ParentEventID (Task_WorkflowInstance t) \<and>
            (case Command_Attr c of
               CompleteWorkflowCommandAttr result err \<Rightarrow>
                 if err \<noteq> [] then
                   Type (HistoryEvent w) = EventType_SubWorkflowFailed \<and>
                   Attributes (HistoryEvent w) = SubWorkflowFailedAttributes err
                 else
                   Type (HistoryEvent w) = EventType_SubWorkflowCompleted \<and>
                   Attributes (HistoryEvent w) = SubWorkflowCompletedAttributes result
             | _ \<Rightarrow> False))
          (filter (\<lambda>c. Command_Type c = CommandType_CompleteWorkflow) (commands (workflowState e)))
          (filter (\<lambda>w. Type (HistoryEvent w) = EventType_SubWorkflowFailed \<or>
                        Type (HistoryEvent w) = EventType_SubWorkflowCompleted) (workflowEvents r))
      else
        filter (\<lambda>w. Type (HistoryEvent w) = EventType_SubWorkflowFailed \<or>
                      Type (HistoryEvent w) = EventType_SubWorkflowCompleted) (workflowEvents r) = [])"
  proof (rule processCommands_emits [OF assms, where S = "\<lambda>cs ns as ws.
     list_all2 (\<lambda>c ev. ScheduleEventID ev = Command_ID c \<and>
          (case Command_Attr c of
             CompleteWorkflowCommandAttr result err \<Rightarrow>
               Attributes ev = ExecutionCompletedAttributes result err
           | _ \<Rightarrow> False))
       (filter (\<lambda>c. Command_Type c = CommandType_CompleteWorkflow) cs)
       (filter (\<lambda>ev. Type ev = EventType_WorkflowExecutionFinished) ns) \<and>
     (if SubWorkflow (Task_WorkflowInstance t) then
        list_all2 (\<lambda>c w. WorkflowInstance w = NewWorkflowInstance (ParentInstanceID (Task_WorkflowInstance t)) [] \<and>
            ScheduleEventID (HistoryEvent w) = ParentEventID (Task_WorkflowInstance t) \<and>
            (case Command_Attr c of
               CompleteWorkflowCommandAttr result err \<Rightarrow>
                 if err \<noteq> [] then
                   Type (HistoryEvent w) = EventType_SubWorkflowFailed \<and>
                   Attributes (HistoryEvent w) = SubWorkflowFailedAttributes err
                 else
                   Type (HistoryEvent w) = EventType_SubWorkflowCompleted \<and>
                   Attributes (HistoryEvent w) = SubWorkflowCompletedAttributes result
             | _ \<Rightarrow> False))
          (filter (\<lambda>c. Command_Type c = CommandType_CompleteWorkflow) cs)
          (filter (\<lambda>w. Type (HistoryEvent w) = EventType_SubWorkflowFailed \<or>
                        Type (HistoryEvent w) = EventType_SubWorkflowCompleted) ws)
      else
        filter (\<lambda>w. Type (HistoryEvent w) = EventType_SubWorkflowFailed \<or>
                      Type (HistoryEvent w) = EventType_SubWorkflowCompleted) ws = [])"], goal_cases)
    case (1 c r k r1 k1)
    from processCommand_complete [OF this] show ?case .
  next
    case 2
    show ?case by simp
  next
    case (3 c cs n1 a1 w1 n2 a2 w2)
    show ?case
    proof (cases "SubWorkflow (Task_WorkflowInstance t)")
      case True
      with 3 show ?thesis
        by (simp only: if_True) (blast intro: list_all2_filter_Cons_append)
    next
      case False
      with 3 show ?thesis
        by (simp only: if_False) (blast intro: list_all2_filter_Cons_append filter_append_Nil)
    qed
  qed
qed

theorem processCommands_CompleteWorkflow_witness:
  "\<exists>r. fst (processCommands sampleEnv (sampleExecutor sampleCommands Map.empty)
             (sampleTask sampleChild 0 [])) = Inr r
     \<and> completed r
     \<and> map (\<lambda>ev. (ScheduleEventID ev, Attributes ev))
         (filter (\<lambda>ev. Type ev = EventType_WorkflowExecutionFinished) (newEvents r))
       = [(4, ExecutionCompletedAttributes None ''failed'')]
     \<and> map (\<lambda>w. (InstanceID (WorkflowInstance w), Type (HistoryEvent w),
                 ScheduleEventID (HistoryEvent w), Attributes (HistoryEvent w)))
         (filter (\<lambda>w. Type (HistoryEvent w) = EventType_SubWorkflowFailed \<or>
                       Type (HistoryEvent w) = EventType_SubWorkflowCompleted) (workflowEvents r))
       = [(''parent'', EventType_SubWorkflowFailed, 5, SubWorkflowFailedAttributes ''failed'')]"
proof -
  obtain r where run: "fst (processCommands sampleEnv (sampleExecutor sampleCommands Map.empty)
             (sampleTask sampleChild 0 [])) = Inr r"
    by (simp add: processCommands_eval sample_defs)
  from processCommands_CompleteWorkflow [OF run] run show ?thesis
    by (auto simp: sampleCommands_def sample_defs sampleTask_def sampleChild_def SubWorkflow_def
          NewWorkflowInstance_def list_all2_Cons1)
qed

lemma processCommand_count:
  assumes "processCommand env inst c r k = Inr (r', k')"
    and "ty = CommandType_ScheduleActivity \<or> ty = CommandType_ScheduleSubWorkflow \<or>
         ty = CommandType_SideEffect \<or> ty = CommandType_ScheduleTimer \<or>
         ty = CommandType_CompleteWorkflow"
  shows "length (filter (\<lambda>ev. ScheduleEventID ev = i \<and> Type ev = matchingEventType ty)
            (newEvents r' @ map HistoryEvent (workflowEvents r'))) =
         length (filter (\<lambda>ev. ScheduleEventID ev = i \<and> Type ev = matchingEventType ty)
            (newEvents r @ map HistoryEvent (workflowEvents r))) +
         length (filter (\<lambda>c. Command_ID c = i \<and> Command_Type c = ty) [c])"
  using assms
  by (auto simp: processCommand_def createNewEvent_def NewPendingEvent_def Let_def
        NewWorkflowCancellationEvent_def ScheduleEventID_option_def VisibleAt_option_def
        matchingEventType_def
        split: CommandType.splits CommandAttr.splits if_splits)

lemma processCommands_loop_count:
  assumes "processCommands_loop env inst cs r k = (Inr r', cs', k')"
    and "ty = CommandType_ScheduleActivity \<or> ty = CommandType_ScheduleSubWorkflow \<or>
         ty = CommandType_SideEffect \<or> ty = CommandType_ScheduleTimer \<or>
         ty = CommandType_CompleteWorkflow"
  shows "length (filter (\<lambda>ev. ScheduleEventID ev = i \<and> Type ev = matchingEventType ty)
            (newEvents r' @ map HistoryEvent (workflowEvents r'))) =
         length (filter (\<lambda>ev. ScheduleEventID ev = i \<and> Type ev = matchingEventType ty)
            (newEvents r @ map HistoryEvent (workflowEvents r))) +
         length (filter (\<lambda>c. Command_ID c = i \<and> Command_Type c = ty) cs)"
  using assms(1)
proof (induction cs arbitrary: r k cs' k')
  case Nil
  then show ?case by simp
next
  case (Cons c cs)
  from Cons.prems obtain r1 k1 cs1 where
    first: "processCommand env inst c r k = Inr (r1, k1)" and
    rest: "processCommands_loop env inst cs r1 k1 = (Inr r', cs1, k')"
    by (auto simp: Let_def split: sum.splits prod.splits)
  from processCommand_count [OF first assms(2), of i] Cons.IH [OF rest]
  show ?case by simp
qed

lemma processCommands_loop_marks:
  assumes "processCommands_loop env inst cs r k = (Inr r', cs', k')"
  shows "cs' = map (\<lambda>c. c\<lparr>Command_State := CommandState_Committed\<rparr>) cs"
  using assms
  by (induction cs arbitrary: r k cs' k') (auto simp: Let_def split: sum.splits prod.splits)

lemma distinct_filter_ID:
  assumes "distinct (map Command_ID cs)" "c \<in> set cs"
  shows "filter (\<lambda>c'. Command_ID c' = Command_ID c \<and> Command_Type c' = Command_Type c) cs = [c]"
  using assms
proof (induction cs)
  case Nil
  then show ?case by simp
next
  case (Cons a cs)
  show ?case
  proof (cases "a = c")
    case True
    have "filter (\<lambda>c'. Command_ID c' = Command_ID c \<and> Command_Type c' = Command_Type c) cs = []"
      using Cons.prems(1) True by (force simp: filter_empty_conv image_iff)
    with True show ?thesis by simp
  next
    case False
    with Cons.prems have "c \<in> set cs" "Command_ID a \<noteq> Command_ID c" by auto
    with Cons show ?thesis by simp
  qed
qed

lemma processCommand_cancelTimer:
  assumes "processCommand env inst c r k = Inr (r', k')"
  shows "\<exists>ns as ws. newEvents r' = newEvents r @ ns \<and> activityEvents r' = activityEvents r @ as \<and>
     workflowEvents r' = workflowEvents r @ ws \<and>
     list_all2 (\<lambda>c w. WorkflowInstance w = inst \<and>
          (case Command_Attr c of
             CancelTimerCommandAttr timer \<Rightarrow> ScheduleEventID (HistoryEvent w) = timer
           | _ \<Rightarrow> False))
       (filter (\<lambda>c. Command_Type c = CommandType_CancelTimer) [c])
       (filter (\<lambda>w. Type (HistoryEvent w) = EventType_TimerCanceled) ws)"
  using assms
  by (auto simp: processCommand_def createNewEvent_def NewPendingEvent_def Let_def
        NewWorkflowCancellationEvent_def ScheduleEventID_option_def VisibleAt_option_def
        split: CommandType.splits CommandAttr.splits if_splits)

text \<open>
  C2 (as amended): when \<^verbatim>\<open>processCommands\<close> succeeds on a log whose command ids are
  distinct, every command of the log is marked \<open>Committed\<close>, and for every command of
  type \<open>ScheduleActivity\<close>, \<open>ScheduleSubWorkflow\<close>, \<open>SideEffect\<close>, \<open>ScheduleTimer\<close> or
  \<open>CompleteWorkflow\<close> exactly one of the events produced (new events and workflow
  events together) has the command's id as schedule event id and the matching type. The
  \<open>TimerCanceled\<close> events correspond one to one to the \<open>CancelTimer\<close> commands; each
  is addressed to the instance itself and carries the schedule event id of the timer
  that is canceled, not the id of the \<open>CancelTimer\<close> command.
\<close>

theorem processCommands_committed_events:
  assumes run: "processCommands env e t = (Inr r, e')"
    and ids: "distinct (map Command_ID (commands (workflowState e)))"
  shows
   "commands (workflowState e') =
      map (\<lambda>c. c\<lparr>Command_State := CommandState_Committed\<rparr>) (commands (workflowState e)) \<and>
    (\<forall>c \<in> set (commands (workflowState e)).
       Command_Type c \<in> {CommandType_ScheduleActivity, CommandType_ScheduleSubWorkflow,
         CommandType_SideEffect, CommandType_ScheduleTimer, CommandType_CompleteWorkflow} \<longrightarrow>
       length (filter (\<lambda>ev. ScheduleEventID ev = Command_ID c \<and>
                           Type ev = matchingEventType (Command_Type c))
                 (newEvents r @ map HistoryEvent (workflowEvents r))) = 1) \<and>
    list_all2 (\<lambda>c w. WorkflowInstance w = Task_WorkflowInstance t \<and>
          (case Command_Attr c of
             CancelTimerCommandAttr timer \<Rightarrow> ScheduleEventID (HistoryEvent w) = timer
           | _ \<Rightarrow> False))
       (filter (\<lambda>c. Command_Type c = CommandType_CancelTimer) (commands (workflowState e)))
       (filter (\<lambda>w. Type (HistoryEvent w) = EventType_TimerCanceled) (workflowEvents r))"
proof (intro conjI ballI impI)
  obtain cs' k' where loop:
    "processCommands_loop env (Task_WorkflowInstance t) (commands (workflowState e))
       \<lparr>completed = False, newEvents = [], activityEvents = [], workflowEvents = []\<rparr> (created e)
     = (Inr r, cs', k')"
    and e': "e' = e\<lparr>workflowState := (workflowState e)\<lparr>commands := cs'\<rparr>, created := k'\<rparr>"
    using run by (auto simp: processCommands_def split: prod.splits)
  from processCommands_loop_marks [OF loop] e'
  show "commands (workflowState e') =
      map (\<lambda>c. c\<lparr>Command_State := CommandState_Committed\<rparr>) (commands (workflowState e))"
    by simp
  {
    fix c
    assume c: "c \<in> set (commands (workflowState e))"
      and ty: "Command_Type c \<in> {CommandType_ScheduleActivity, CommandType_ScheduleSubWorkflow,
         CommandType_SideEffect, CommandType_ScheduleTimer, CommandType_CompleteWorkflow}"
    from ty have ty': "Command_Type c = CommandType_ScheduleActivity \<or>
         Command_Type c = CommandType_ScheduleSubWorkflow \<or>
         Command_Type c = CommandType_SideEffect \<or> Command_Type c = CommandType_ScheduleTimer \<or>
         Command_Type c = CommandType_CompleteWorkflow"
      by auto
    from processCommands_loop_count [OF loop ty', of "Command_ID c"] distinct_filter_ID [OF ids c]
    show "length (filter (\<lambda>ev. ScheduleEventID ev = Command_ID c \<and>
                           Type ev = matchingEventType (Command_Type c))
                 (newEvents r @ map HistoryEvent (workflowEvents r))) = 1"
      by simp
  }
  from run have fst_run: "fst (processCommands env e t) = Inr r" by simp
  show "list_all2 (\<lambda>c w. WorkflowInstance w = Task_WorkflowInstance t \<and>
          (case Command_Attr c of
             CancelTimerCommandAttr timer \<Rightarrow> ScheduleEventID (HistoryEvent w) = timer
           | _ \<Rightarrow> False))
       (filter (\<lambda>c. Command_Type c = CommandType_CancelTimer) (commands (workflowState e)))
       (filter (\<lambda>w. Type (HistoryEvent w) = EventType_TimerCanceled) (workflowEvents r))"
  proof (rule processCommands_emits [OF fst_run, where S = "\<lambda>cs ns as ws.
       list_all2 (\<lambda>c w. WorkflowInstance w = Task_WorkflowInstance t \<and>
          (case Command_Attr c of
             CancelTimerCommandAttr timer \<Rightarrow> ScheduleEventID (HistoryEvent w) = timer
           | _ \<Rightarrow> False))
       (filter (\<lambda>c. Command_Type c = CommandType_CancelTimer) cs)
       (filter (\<lambda>w. Type (HistoryEvent w) = EventType_TimerCanceled) ws)"], goal_cases)
    case (1 c r k r1 k1)
    from processCommand_cancelTimer [OF this] show ?case .
  next
    case 2
    show ?case by simp
  next
    case (3 c cs n1 a1 w1 n2 a2 w2)
    then show ?case by (blast intro: list_all2_filter_Cons_append)
  qed
qed

theorem processCommands_committed_events_witness:
  "\<exists>r e'. processCommands sampleEnv (sampleExecutor sampleCommands Map.empty)
             (sampleTask sampleInstance 0 []) = (Inr r, e')
     \<and> distinct (map Command_ID (commands (workflowState (sampleExecutor sampleCommands Map.empty))))
     \<and> map Command_State (commands (workflowState e')) =
         [CommandState_Committed, CommandState_Committed, CommandState_Committed, CommandState_Committed]
     \<and> length (filter (\<lambda>ev. ScheduleEventID ev = 3 \<and> Type ev = EventType_ActivityScheduled)
                 (newEvents r @ map HistoryEvent (workflowEvents r))) = 1
     \<and> map (\<lambda>w. ScheduleEventID (HistoryEvent w))
         (filter (\<lambda>w. Type (HistoryEvent w) = EventType_TimerCanceled) (workflowEvents r)) = [1]"
proof -
  obtain r e' where run: "processCommands sampleEnv (sampleExecutor sampleCommands Map.empty)
             (sampleTask sampleInstance 0 []) = (Inr r, e')"
    by (simp add: processCommands_eval sample_defs)
  have ids: "distinct (map Command_ID (commands (workflowState (sampleExecutor sampleCommands Map.empty))))"
    by (simp add: sampleCommands_def sample_defs)
  from processCommands_committed_events [OF run ids] run ids show ?thesis
    by (auto simp: sampleCommands_def sample_defs sampleTask_def matchingEventType_def
          list_all2_Cons1)
qed

text \<open>
  The claim C2 as first stated fails for a \<open>CancelTimer\<close> command: the command with id 2
  that cancels timer 1 is committed, and no event produced has schedule event id 2.
\<close>

theorem processCommands_CancelTimer_counterexample:
  "\<exists>r e'. processCommands sampleEnv (sampleExecutor sampleCommands Map.empty)
             (sampleTask sampleInstance 0 []) = (Inr r, e')
     \<and> (\<exists>c \<in> set (commands (workflowState e')).
           Command_ID c = 2 \<and> Command_Type c = CommandType_CancelTimer \<and>
           Command_State c = CommandState_Committed)
     \<and> filter (\<lambda>ev. ScheduleEventID ev = 2) (newEvents r @ map HistoryEvent (workflowEvents r)) = []"
  by (simp add: processCommands_eval sample_defs)

subsection \<open>Sequence ids\<close>

text \<open>
  The assignment loop numbers the events from the executor's \<open>lastSequenceID + 1\<close> on,
  in 64-bit arithmetic, and changes nothing else.
\<close>

lemma setSequenceIDs_Cons:
  "setSequenceIDs e (ev # events) =
     (ev\<lparr>SequenceID := lastSequenceID e + 1\<rparr> #
        fst (setSequenceIDs (e\<lparr>lastSequenceID := lastSequenceID e + 1\<rparr>) events),
      snd (setSequenceIDs (e\<lparr>lastSequenceID := lastSequenceID e + 1\<rparr>) events))"
  by (simp add: nextSequenceID_def split: prod.splits)

lemma setSequenceIDs_executor:
  "snd (setSequenceIDs e events) = e\<lparr>lastSequenceID := lastSequenceID e + of_nat (length events)\<rparr>"
proof (induction events arbitrary: e)
  case Nil
  show ?case by simp
next
  case (Cons ev events)
  show ?case
    by (simp only: setSequenceIDs_Cons snd_conv Cons.IH) (simp add: add.assoc)
qed

lemma setSequenceIDs_length:
  "length (fst (setSequenceIDs e events)) = length events"
proof (induction events arbitrary: e)
  case Nil
  show ?case by simp
next
  case (Cons ev events)
  show ?case by (simp only: setSequenceIDs_Cons fst_conv Cons.IH list.size)
qed

lemma setSequenceIDs_nth:
  "i < length events \<Longrightarrow>
     fst (setSequenceIDs e events) ! i = (events ! i)\<lparr>SequenceID := lastSequenceID e + 1 + of_nat i\<rparr>"
proof (induction events arbitrary: e i)
  case Nil
  then show ?case by simp
next
  case (Cons ev events)
  show ?case
  proof (cases i)
    case 0
    then show ?thesis by (simp add: setSequenceIDs_Cons del: setSequenceIDs.simps)
  next
    case (Suc j)
    with Cons.prems have j: "j < length events" by simp
    from Cons.IH [OF j, of "e\<lparr>lastSequenceID := lastSequenceID e + 1\<rparr>"] Suc
    show ?thesis by (simp add: setSequenceIDs_Cons add.assoc del: setSequenceIDs.simps)
  qed
qed

lemma setSequenceIDs_ids:
  "map SequenceID (fst (setSequenceIDs e events)) =
     map (\<lambda>i. lastSequenceID e + 1 + of_nat i) [0..<length events]"
  by (rule nth_equalityI) (simp_all add: setSequenceIDs_length setSequenceIDs_nth)

lemma setSequenceIDs_rest:
  "map (\<lambda>ev. ev\<lparr>SequenceID := 0\<rparr>) (fst (setSequenceIDs e events)) =
     map (\<lambda>ev. ev\<lparr>SequenceID := 0\<rparr>) events"
  by (rule nth_equalityI) (simp_all add: setSequenceIDs_length setSequenceIDs_nth)

lemma sint_add_of_nat:
  fixes a :: int64
  assumes "sint a + int n < 2 ^ 63"
  shows "sint (a + of_nat n) = sint a + int n"
proof -
  have lo: "- (2 ^ 63) \<le> sint a" using sint_ge [of a] by simp
  have "a + of_nat n = word_of_int (sint a + int n)" by simp
  then have "sint (a + of_nat n) = signed_take_bit 63 (sint a + int n)"
    by (simp only: sint_sbintrunc') simp
  also have "\<dots> = sint a + int n"
    using lo assms by (intro signed_take_bit_int_eq_self) simp_all
  finally show ?thesis .
qed

text \<open>Nothing but the replay and the assignment loop changes \<open>lastSequenceID\<close>.\<close>

lemma workflow_Continue_lastSequenceID [simp]:
  "lastSequenceID (snd (workflow_Continue env e)) = lastSequenceID e"
  by (simp add: workflow_Continue_def split: option.splits prod.splits)

lemma workflow_Execute_lastSequenceID [simp]:
  "lastSequenceID (snd (workflow_Execute env e inputs)) = lastSequenceID e"
  by (simp add: workflow_Execute_def split: option.splits prod.splits)

lemma setFuture_lastSequenceID [simp]:
  "lastSequenceID (snd (setFuture f v err e)) = lastSequenceID e"
  by (simp add: setFuture_def split: prod.splits)

lemma removeCommandByEventID_lastSequenceID [simp]:
  "lastSequenceID (snd (removeCommandByEventID e i)) = lastSequenceID e"
  by (simp add: removeCommandByEventID_def split: prod.splits)

lemma removeCommandByEventID_frame:
  "removeCommandByEventID e i = (c, e1) \<Longrightarrow> lastSequenceID e1 = lastSequenceID e"
  using removeCommandByEventID_lastSequenceID [of e i] by simp

lemma setFuture_frame:
  "setFuture f v err e = (r, e1) \<Longrightarrow> lastSequenceID e1 = lastSequenceID e"
  using setFuture_lastSequenceID [of f v err e] by simp

lemma handlers_lastSequenceID [simp]:
  "lastSequenceID (snd (handleWorkflowExecutionStarted env e name inputs)) = lastSequenceID e"
  "lastSequenceID (snd (handleWorkflowCanceled env e)) = lastSequenceID e"
  "lastSequenceID (snd (handleWorkflowTaskStarted e event)) = lastSequenceID e"
  "lastSequenceID (snd (handleActivityScheduled e event name)) = lastSequenceID e"
  "lastSequenceID (snd (handleActivityCompleted env e event result)) = lastSequenceID e"
  "lastSequenceID (snd (handleActivityFailed env e event reason)) = lastSequenceID e"
  "lastSequenceID (snd (handleTimerScheduled e event)) = lastSequenceID e"
  "lastSequenceID (snd (handleTimerFired env e event)) = lastSequenceID e"
  "lastSequenceID (snd (handleTimerCanceled env e event)) = lastSequenceID e"
  "lastSequenceID (snd (handleSubWorkflowScheduled env e event subInstance name)) = lastSequenceID e"
  "lastSequenceID (snd (handleSubWorkflowCancellationRequest env e event)) = lastSequenceID e"
  "lastSequenceID (snd (handleSubWorkflowFailed env e event err)) = lastSequenceID e"
  "lastSequenceID (snd (handleSubWorkflowCompleted env e event result)) = lastSequenceID e"
  "lastSequenceID (snd (handleSignalReceived env e event name arg)) = lastSequenceID e"
  "lastSequenceID (snd (handleSideEffectResult env e event result)) = lastSequenceID e"
  by (auto simp: handleWorkflowExecutionStarted_def handleWorkflowCanceled_def
        handleWorkflowTaskStarted_def handleActivityScheduled_def handleActivityCompleted_def
        handleActivityFailed_def handleTimerScheduled_def handleTimerFired_def
        handleTimerCanceled_def handleSubWorkflowScheduled_def
        handleSubWorkflowCancellationRequest_def handleSubWorkflowFailed_def
        handleSubWorkflowCompleted_def handleSignalReceived_def handleSideEffectResult_def
        removeCommandByEventID_def RemoveCommandByEventID_def setFuture_def
        workflow_Continue_def workflow_Execute_def
        split: option.splits prod.splits CommandAttr.splits)

lemma executeEvent_lastSequenceID [simp]:
  "lastSequenceID (snd (executeEvent env e event)) = lastSequenceID e"
  by (simp add: executeEvent_def badAttributes_def split: EventType.splits Attributes.splits)

lemma executeNewEvents_loop_lastSequenceID [simp]:
  "lastSequenceID (snd (snd (executeNewEvents_loop env e events))) = lastSequenceID e"
proof (induction events arbitrary: e)
  case Nil
  show ?case by simp
next
  case (Cons event events)
  show ?case
    using executeEvent_lastSequenceID [of env e event]
          Cons.IH [of "snd (executeEvent env e event)"]
    by (cases "executeEvent env e event") (auto split: option.splits prod.splits)
qed

lemma workflowCompleted_lastSequenceID [simp]:
  "lastSequenceID (workflowCompleted e result err) = lastSequenceID e"
  by (simp add: workflowCompleted_def GetNextScheduleEventID_def)

lemma executeNewEvents_lastSequenceID [simp]:
  "lastSequenceID (snd (executeNewEvents env e events)) = lastSequenceID e"
  using executeNewEvents_loop_lastSequenceID
          [of env "e\<lparr>workflowState := SetReplaying (workflowState e) False\<rparr>" events]
  by (cases "executeNewEvents_loop env (e\<lparr>workflowState := SetReplaying (workflowState e) False\<rparr>) events")
     (auto simp: executeNewEvents_def split: option.splits)

lemma processCommands_lastSequenceID [simp]:
  "lastSequenceID (snd (processCommands env e t)) = lastSequenceID e"
  by (simp add: processCommands_def split: prod.splits)

lemma executeEvent_taskStarted:
  "Type event = EventType_WorkflowTaskStarted \<Longrightarrow> Attributes event = WorkflowTaskStartedAttributes \<Longrightarrow>
     fst (executeEvent env e event) = None"
  by (simp add: executeEvent_def handleWorkflowTaskStarted_def)

lemma createNewEvent_taskStarted:
  "createNewEvent env k EventType_WorkflowTaskStarted WorkflowTaskStartedAttributes [] = (ev, k') \<Longrightarrow>
     Type ev = EventType_WorkflowTaskStarted \<and> Attributes ev = WorkflowTaskStartedAttributes"
  by (auto simp: createNewEvent_def NewPendingEvent_def)

lemma executeNewEvents_nonempty:
  assumes "Type event = EventType_WorkflowTaskStarted" "Attributes event = WorkflowTaskStartedAttributes"
    and "executeNewEvents env e (event # events) = ((executed, res), e')"
    and "\<forall>p. res \<noteq> Some (Panic p)"
  shows "executed \<noteq> []"
  using assms(3,4) executeEvent_taskStarted [OF assms(1,2), of env "e\<lparr>workflowState := SetReplaying (workflowState e) False\<rparr>"]
  by (cases "executeEvent env (e\<lparr>workflowState := SetReplaying (workflowState e) False\<rparr>) event")
     (auto simp: executeNewEvents_def split: option.splits prod.splits if_splits)

lemma finishTask_Inr:
  assumes "finishTask env e1 t executed = (Inr r, e')"
  shows "\<exists>pc e2. processCommands env e1 t = (Inr pc, e2) \<and>
     setSequenceIDs e2 (executed @ newEvents pc) = (Executed r, e') \<and>
     Completed r = completed pc \<and> ActivityEvents r = activityEvents pc \<and>
     WorkflowEvents r = workflowEvents pc"
  using assms
  by (cases "processCommands env e1 t")
     (auto simp: finishTask_def simp del: setSequenceIDs.simps
           split: sum.splits fault.splits prod.splits)

lemma executeAndProcess_Inr:
  assumes "executeAndProcess env e t skip = (Inr r, e')"
  shows "\<exists>executed e1. executed \<noteq> [] \<and> lastSequenceID e1 = lastSequenceID e \<and>
     finishTask env e1 t executed = (Inr r, e')"
proof -
  obtain taskStarted k where ts:
    "createNewEvent env (created e) EventType_WorkflowTaskStarted WorkflowTaskStartedAttributes [] = (taskStarted, k)"
    by (cases "createNewEvent env (created e) EventType_WorkflowTaskStarted WorkflowTaskStartedAttributes []")
  note ty = createNewEvent_taskStarted [OF ts]
  define e0 where "e0 = e\<lparr>created := k\<rparr>"
  have e0: "lastSequenceID e0 = lastSequenceID e" by (simp add: e0_def)
  show ?thesis
  proof (cases skip)
    case True
    with assms ts have "finishTask env e0 t [taskStarted] = (Inr r, e')"
      by (simp add: executeAndProcess_def Let_def e0_def)
    with e0 show ?thesis by blast
  next
    case False
    obtain executed res ex where run: "executeNewEvents env e0 (taskStarted # NewEvents t) = ((executed, res), ex)"
      by (cases "executeNewEvents env e0 (taskStarted # NewEvents t)") auto
    have ex: "lastSequenceID ex = lastSequenceID e"
      using executeNewEvents_lastSequenceID [of env e0 "taskStarted # NewEvents t"] run e0
      by simp
    from assms ts False run have nopanic: "\<forall>p. res \<noteq> Some (Panic p)"
      by (auto simp: executeAndProcess_def Let_def e0_def [symmetric])
    from executeNewEvents_nonempty [OF conjunct1 [OF ty] conjunct2 [OF ty] run nopanic]
    have ne: "executed \<noteq> []" .
    show ?thesis
    proof (cases res)
      case None
      with assms ts False run have "finishTask env ex t executed = (Inr r, e')"
        by (simp add: executeAndProcess_def Let_def e0_def [symmetric])
      with ne ex show ?thesis by blast
    next
      case (Some f)
      with nopanic obtain m where m: "res = Some (Error m)" by (cases f) auto
      have last: "lastSequenceID (workflowCompleted ex None (Some m)) = lastSequenceID e"
        using ex by simp
      from assms ts False run m
      have "finishTask env (workflowCompleted ex None (Some m)) t executed = (Inr r, e')"
        by (simp add: executeAndProcess_def Let_def e0_def [symmetric])
      with ne last show ?thesis by blast
    qed
  qed
qed

lemma ExecuteTask_Inr:
  assumes "ExecuteTask env e t = (Inr r, e')"
  shows "\<exists>e1 skip. lastSequenceID e1 = LastSequenceID t \<and> executeAndProcess env e1 t skip = (Inr r, e')"
proof -
  define e0 where "e0 = e\<lparr>workflowState := ClearCommands (workflowState e)\<rparr>"
  have e0: "lastSequenceID e0 = lastSequenceID e" by (simp add: e0_def)
  show ?thesis
  proof (cases "sint (lastSequenceID e0) < sint (LastSequenceID t)")
    case True
    with assms show ?thesis
      by (auto simp: ExecuteTask_def Let_def e0_def [symmetric]
               split: sum.splits prod.splits option.splits fault.splits if_splits)
         (metis workflowCompleted_lastSequenceID)
  next
    case False
    with assms have ge: "\<not> sint (LastSequenceID t) < sint (lastSequenceID e0)"
      and run: "executeAndProcess env e0 t False = (Inr r, e')"
      by (auto simp: ExecuteTask_def Let_def e0_def [symmetric] split: if_splits)
    from False ge have "sint (lastSequenceID e0) = sint (LastSequenceID t)" by simp
    then have "lastSequenceID e0 = LastSequenceID t" by (rule signed_word_eqI)
    with run show ?thesis by blast
  qed
qed

lemmas ExecuteTask_eval = ExecuteTask_def executeAndProcess_def finishTask_def
  executeNewEvents_def replayHistory_def executeEvent_def badAttributes_def
  handleWorkflowExecutionStarted_def handleWorkflowCanceled_def
  handleWorkflowTaskStarted_def handleActivityScheduled_def handleActivityCompleted_def
  handleActivityFailed_def handleTimerScheduled_def handleTimerFired_def
  handleTimerCanceled_def handleSubWorkflowScheduled_def
  handleSubWorkflowCancellationRequest_def handleSubWorkflowFailed_def
  handleSubWorkflowCompleted_def handleSignalReceived_def handleSideEffectResult_def
  removeCommandByEventID_def RemoveCommandByEventID_def setFuture_def
  workflow_Continue_def workflow_Execute_def workflowCompleted_def
  GetNextScheduleEventID_def AddCommand_def NewCompleteWorkflowCommand_def
  ClearCommands_def SetReplaying_def SetTime_def ReceiveSignal_def FutureByScheduleEventID_def
  nextSequenceID_def NewExecutor_def NewWorkflowState_def Let_def

text \<open>
  C3 (as amended): for every successful \<^verbatim>\<open>ExecuteTask\<close> call the \<open>Executed\<close> list is
  not empty; the assignment loop starts from an executor whose \<open>lastSequenceID\<close> is the
  task's \<open>LastSequenceID\<close> (the checks before it make the two equal); the sequence ids
  of \<open>Executed\<close> are \<open>lastSequenceID + 1\<close>, \<open>lastSequenceID + 2\<close>, ... in 64-bit
  arithmetic, and the executor's \<open>lastSequenceID\<close> afterwards is the id of the last
  event. Read as integers they are a strictly increasing run of consecutive integers
  when \<open>lastSequenceID\<close> plus the number of executed events stays below \<open>2^63\<close>.
\<close>

theorem ExecuteTask_sequence_ids:
  assumes "ExecuteTask env e t = (Inr r, e')"
  shows "Executed r \<noteq> []
     \<and> (\<exists>e2 events. lastSequenceID e2 = LastSequenceID t \<and>
           setSequenceIDs e2 events = (Executed r, e'))
     \<and> map SequenceID (Executed r) =
         map (\<lambda>i. LastSequenceID t + 1 + of_nat i) [0..<length (Executed r)]
     \<and> lastSequenceID e' = SequenceID (last (Executed r))
     \<and> (sint (LastSequenceID t) + int (length (Executed r)) < 2 ^ 63 \<longrightarrow>
          map (\<lambda>ev. sint (SequenceID ev)) (Executed r) =
            map (\<lambda>i. sint (LastSequenceID t) + 1 + int i) [0..<length (Executed r)])"
proof -
  from ExecuteTask_Inr [OF assms] obtain e1 skip where
    e1: "lastSequenceID e1 = LastSequenceID t" and
    run1: "executeAndProcess env e1 t skip = (Inr r, e')"
    by blast
  from executeAndProcess_Inr [OF run1] obtain executed ex where
    ne: "executed \<noteq> []" and ex: "lastSequenceID ex = lastSequenceID e1" and
    run2: "finishTask env ex t executed = (Inr r, e')"
    by blast
  from finishTask_Inr [OF run2] obtain pc e2 where
    pc: "processCommands env ex t = (Inr pc, e2)" and
    ids: "setSequenceIDs e2 (executed @ newEvents pc) = (Executed r, e')"
    by blast
  define events where "events = executed @ newEvents pc"
  define n where "n = length events"
  have e2: "lastSequenceID e2 = LastSequenceID t"
    using processCommands_lastSequenceID [of env ex t] pc ex e1 by simp
  have exec: "Executed r = fst (setSequenceIDs e2 events)" and e': "e' = snd (setSequenceIDs e2 events)"
    using ids by (simp_all add: events_def)
  have len: "length (Executed r) = n"
    by (simp add: exec setSequenceIDs_length n_def)
  have pos: "0 < n" using ne by (simp add: n_def events_def)
  have nonempty: "Executed r \<noteq> []" using len pos by auto
  have seq: "map SequenceID (Executed r) = map (\<lambda>i. LastSequenceID t + 1 + of_nat i) [0..<n]"
    by (simp add: exec setSequenceIDs_ids e2 n_def)
  have last_e': "lastSequenceID e' = LastSequenceID t + of_nat n"
    by (simp add: e' setSequenceIDs_executor e2 n_def)
  have "SequenceID (last (Executed r)) = map SequenceID (Executed r) ! (n - 1)"
    using nonempty len pos by (simp add: last_conv_nth)
  also have "\<dots> = LastSequenceID t + 1 + of_nat (n - 1)"
    using pos by (simp add: seq)
  also have "\<dots> = LastSequenceID t + of_nat n"
  proof -
    from pos obtain k where "n = Suc k" by (cases n) auto
    then show ?thesis by (simp add: add.assoc add.commute)
  qed
  finally have last_id: "lastSequenceID e' = SequenceID (last (Executed r))"
    using last_e' by simp
  have signed: "map (\<lambda>ev. sint (SequenceID ev)) (Executed r) =
            map (\<lambda>i. sint (LastSequenceID t) + 1 + int i) [0..<n]"
    if bound: "sint (LastSequenceID t) + int n < 2 ^ 63"
  proof -
    have "map (\<lambda>ev. sint (SequenceID ev)) (Executed r) = map sint (map SequenceID (Executed r))"
      by simp
    also have "\<dots> = map (\<lambda>i. sint (LastSequenceID t + 1 + of_nat i)) [0..<n]"
      by (simp only: seq map_map comp_def)
    also have "\<dots> = map (\<lambda>i. sint (LastSequenceID t) + 1 + int i) [0..<n]"
    proof (rule map_cong [OF refl])
      fix i assume "i \<in> set [0..<n]"
      then have i: "i < n" by simp
      have "LastSequenceID t + 1 + of_nat i = LastSequenceID t + of_nat (Suc i)"
        by (simp add: add.assoc add.commute)
      moreover have "sint (LastSequenceID t) + int (Suc i) < 2 ^ 63"
        using bound i by simp
      ultimately show "sint (LastSequenceID t + 1 + of_nat i) = sint (LastSequenceID t) + 1 + int i"
        using sint_add_of_nat [of "LastSequenceID t" "Suc i"] by (simp add: add.assoc)
    qed
    finally show ?thesis .
  qed
  from nonempty e2 ids seq last_id signed show ?thesis
    unfolding len by blast
qed

theorem ExecuteTask_sequence_ids_witness:
  "\<exists>r e'. ExecuteTask sampleEnv (sampleExecutor [] Map.empty)
       (sampleTask sampleInstance 0
          [sampleEvent EventType_SignalReceived (SignalReceivedAttributes ''go'' None) 0 0])
      = (Inr r, e')
     \<and> map SequenceID (Executed r) = [1, 2] \<and> lastSequenceID e' = 2
     \<and> map (\<lambda>ev. sint (SequenceID ev)) (Executed r) = [1, 2]"
proof -
  obtain r e' where run: "ExecuteTask sampleEnv (sampleExecutor [] Map.empty)
       (sampleTask sampleInstance 0
          [sampleEvent EventType_SignalReceived (SignalReceivedAttributes ''go'' None) 0 0])
      = (Inr r, e')" and len: "length (Executed r) = 2"
    by (simp add: ExecuteTask_eval processCommands_eval sample_defs)
  have upt: "[0..<2] = [0, Suc 0]" by (simp add: upt_rec)
  from ExecuteTask_sequence_ids [OF run] run len show ?thesis
    by (auto simp: sampleTask_def upt last_conv_nth)
qed

text \<open>
  The claim C3 as first stated fails when the counter wraps around: a fresh executor
  replays a history that ends at sequence id \<open>2^63 - 2\<close> and then executes a task with
  one new event; the two executed events get the ids \<open>2^63 - 1\<close> and \<open>- 2^63\<close>.
\<close>

theorem ExecuteTask_sequence_ids_overflow_counterexample:
  "\<exists>r e'. ExecuteTask
       (sampleEnv\<lparr>GetWorkflowInstanceHistory := (\<lambda>i after.
          Inr [sampleEvent EventType_WorkflowExecutionStarted (ExecutionStartedAttributes ''W'' [])
                 0 9223372036854775806])\<rparr>)
       (NewExecutor sampleEnv sampleInstance 0)
       (sampleTask sampleInstance 9223372036854775806
          [sampleEvent EventType_SignalReceived (SignalReceivedAttributes ''go'' None) 0 0])
      = (Inr r, e')
     \<and> map (\<lambda>ev. sint (SequenceID ev)) (Executed r) = [9223372036854775807, - 9223372036854775808]"
  by (simp add: ExecuteTask_eval processCommands_eval sample_defs)

subsection \<open>Copies of the events\<close>

lemma processCommand_pending:
  assumes "processCommand env inst c r k = Inr (r', k')"
  shows "\<exists>ns as ws. newEvents r' = newEvents r @ ns \<and> activityEvents r' = activityEvents r @ as \<and>
     workflowEvents r' = workflowEvents r @ ws \<and>
     ((\<forall>ev \<in> set ns. SequenceID ev = 0) \<and> (\<forall>w \<in> set ws. SequenceID (HistoryEvent w) = 0) \<and>
      set as \<subseteq> set ns)"
  using assms
  by (auto simp: processCommand_def createNewEvent_def NewPendingEvent_def Let_def
        NewWorkflowCancellationEvent_def ScheduleEventID_option_def VisibleAt_option_def
        split: CommandType.splits CommandAttr.splits if_splits)

lemma processCommands_pending:
  assumes "fst (processCommands env e t) = Inr r"
  shows "(\<forall>ev \<in> set (newEvents r). SequenceID ev = 0) \<and>
     (\<forall>w \<in> set (workflowEvents r). SequenceID (HistoryEvent w) = 0) \<and>
     set (activityEvents r) \<subseteq> set (newEvents r)"
proof (rule processCommands_emits [OF assms, where S = "\<lambda>cs ns as ws.
     (\<forall>ev \<in> set ns. SequenceID ev = 0) \<and> (\<forall>w \<in> set ws. SequenceID (HistoryEvent w) = 0) \<and>
     set as \<subseteq> set ns"], goal_cases)
  case (1 c r k r1 k1)
  from processCommand_pending [OF this] show ?case .
next
  case 2
  show ?case by simp
next
  case (3 c cs n1 a1 w1 n2 a2 w2)
  then show ?case by auto
qed

text \<open>
  C10: for every successful \<^verbatim>\<open>ExecuteTask\<close> call, every event of \<open>ActivityEvents\<close> has
  sequence id zero and is, but for the sequence id, an event of \<open>Executed\<close> (the same
  \<open>ActivityScheduled\<close> event was appended to both lists by value), and every event
  inside \<open>WorkflowEvents\<close> has sequence id zero: the assignment loop writes only into
  the \<open>Executed\<close> list.
\<close>

theorem ExecuteTask_copies_keep_zero:
  assumes "ExecuteTask env e t = (Inr r, e')"
  shows "(\<forall>a \<in> set (ActivityEvents r).
           SequenceID a = 0 \<and> (\<exists>x \<in> set (Executed r). a = x\<lparr>SequenceID := 0\<rparr>))
     \<and> (\<forall>w \<in> set (WorkflowEvents r). SequenceID (HistoryEvent w) = 0)"
proof -
  from ExecuteTask_Inr [OF assms] obtain e1 skip where
    run1: "executeAndProcess env e1 t skip = (Inr r, e')"
    by blast
  from executeAndProcess_Inr [OF run1] obtain executed ex where
    run2: "finishTask env ex t executed = (Inr r, e')"
    by blast
  from finishTask_Inr [OF run2] obtain pc e2 where
    pc: "processCommands env ex t = (Inr pc, e2)" and
    ids: "setSequenceIDs e2 (executed @ newEvents pc) = (Executed r, e')" and
    act: "ActivityEvents r = activityEvents pc" and wf: "WorkflowEvents r = workflowEvents pc"
    by blast
  from pc have "fst (processCommands env ex t) = Inr pc" by simp
  from processCommands_pending [OF this] have
    zero: "\<forall>ev \<in> set (newEvents pc). SequenceID ev = 0" and
    wzero: "\<forall>w \<in> set (workflowEvents pc). SequenceID (HistoryEvent w) = 0" and
    sub: "set (activityEvents pc) \<subseteq> set (newEvents pc)"
    by blast+
  have rest: "map (\<lambda>ev. ev\<lparr>SequenceID := 0\<rparr>) (Executed r) =
      map (\<lambda>ev. ev\<lparr>SequenceID := 0\<rparr>) (executed @ newEvents pc)"
    using setSequenceIDs_rest [of e2 "executed @ newEvents pc"] ids by simp
  have copy: "\<exists>x \<in> set (Executed r). a = x\<lparr>SequenceID := 0\<rparr>" and a0: "SequenceID a = 0"
    if a: "a \<in> set (ActivityEvents r)" for a
  proof -
    from a act sub have mem: "a \<in> set (newEvents pc)" by auto
    with zero show a0: "SequenceID a = 0" by simp
    then have "a\<lparr>SequenceID := 0\<rparr> = a" by (cases a) simp
    moreover from mem have "a\<lparr>SequenceID := 0\<rparr> \<in> set (map (\<lambda>ev. ev\<lparr>SequenceID := 0\<rparr>) (executed @ newEvents pc))"
      by auto
    ultimately have "a \<in> set (map (\<lambda>ev. ev\<lparr>SequenceID := 0\<rparr>) (Executed r))"
      using rest by simp
    then show "\<exists>x \<in> set (Executed r). a = x\<lparr>SequenceID := 0\<rparr>" by auto
  qed
  from copy a0 wzero wf show ?thesis by auto
qed

theorem ExecuteTask_copies_keep_zero_witness:
  "\<exists>r e'. ExecuteTask schedulingEnv (NewExecutor schedulingEnv sampleInstance 0)
       (sampleTask sampleInstance 0
          [sampleEvent EventType_WorkflowExecutionStarted (ExecutionStartedAttributes ''W'' []) 0 0])
      = (Inr r, e')
     \<and> map (\<lambda>ev. (Type ev, ScheduleEventID ev, SequenceID ev)) (Executed r) =
         [(EventType_WorkflowTaskStarted, 0, 1), (EventType_WorkflowExecutionStarted, 0, 2),
          (EventType_ActivityScheduled, 1, 3), (EventType_TimerScheduled, 2, 4)]
     \<and> map (\<lambda>ev. (Type ev, ScheduleEventID ev, SequenceID ev)) (ActivityEvents r) =
         [(EventType_ActivityScheduled, 1, 0)]
     \<and> map (\<lambda>w. (Type (HistoryEvent w), ScheduleEventID (HistoryEvent w), SequenceID (HistoryEvent w)))
         (WorkflowEvents r) = [(EventType_TimerFired, 2, 0)]"
proof -
  obtain r e' where run: "ExecuteTask schedulingEnv (NewExecutor schedulingEnv sampleInstance 0)
       (sampleTask sampleInstance 0
          [sampleEvent EventType_WorkflowExecutionStarted (ExecutionStartedAttributes ''W'' []) 0 0])
      = (Inr r, e')"
    and shape: "map (\<lambda>ev. (Type ev, ScheduleEventID ev, SequenceID ev)) (Executed r) =
         [(EventType_WorkflowTaskStarted, 0, 1), (EventType_WorkflowExecutionStarted, 0, 2),
          (EventType_ActivityScheduled, 1, 3), (EventType_TimerScheduled, 2, 4)]"
         "map (\<lambda>ev. (Type ev, ScheduleEventID ev)) (ActivityEvents r) = [(EventType_ActivityScheduled, 1)]"
         "map (\<lambda>w. (Type (HistoryEvent w), ScheduleEventID (HistoryEvent w))) (WorkflowEvents r) =
            [(EventType_TimerFired, 2)]"
    by (simp add: ExecuteTask_eval processCommands_eval sample_defs schedulingEnv_def)
  from ExecuteTask_copies_keep_zero [OF run] run shape show ?thesis
    by auto
qed

subsection \<open>Errors during replay and during the execution of new events\<close>

text \<open>
  When the replay stops at an event with an error, \<open>lastSequenceID\<close> is what it was
  before the replay or the sequence id of an earlier event of the history, and
  \<^verbatim>\<open>ExecuteTask\<close> then returns the error of the check that follows the replay unless that
  value is the task's \<open>LastSequenceID\<close>.
\<close>

lemma ExecuteTask_replay_mismatch:
  assumes "sint (lastSequenceID e) < sint (LastSequenceID t)"
    and "GetWorkflowInstanceHistory env (Task_WorkflowInstance t) (lastSequenceID e) = Inr h"
    and "replayHistory env (e\<lparr>workflowState := ClearCommands (workflowState e)\<rparr>) h = (Some (Error m), e1)"
    and "lastSequenceID e1 \<noteq> LastSequenceID t"
  shows "fst (ExecuteTask env e t) =
     Inl (Error ''even after fetching history and replaying history executor state does not match task'')"
  using assms by (auto simp: ExecuteTask_def Let_def)

lemma replayHistory_loop_error:
  assumes "replayHistory_loop env e h = (Some err, e1)"
  shows "lastSequenceID e1 = lastSequenceID e \<or> lastSequenceID e1 \<in> SequenceID ` set (butlast h)"
  using assms
proof (induction h arbitrary: e)
  case Nil
  then show ?case by simp
next
  case (Cons event events)
  show ?case
  proof (cases "fst (executeEvent env e event)")
    case (Some f)
    with Cons.prems have "e1 = snd (executeEvent env e event)"
      by (cases "executeEvent env e event") auto
    then show ?thesis by simp
  next
    case None
    with Cons.prems have rest:
      "replayHistory_loop env ((snd (executeEvent env e event))\<lparr>lastSequenceID := SequenceID event\<rparr>) events
         = (Some err, e1)"
      by (cases "executeEvent env e event") auto
    then have "events \<noteq> []" by auto
    with Cons.IH [OF rest] show ?thesis by auto
  qed
qed

text \<open>
  C1: the code at the claim's case. A fresh executor gets a task with \<open>LastSequenceID\<close>
  2; the history is the start of the workflow (sequence id 1) and an \<open>ActivityScheduled\<close>
  event for activity \<open>B\<close> (sequence id 2), while the workflow schedules activity \<open>A\<close>.
  Replaying fails with the determinism error at the second event, and \<^verbatim>\<open>ExecuteTask\<close>
  returns an error, not an \<open>ExecutionResult\<close>: \<open>lastSequenceID\<close> stayed at 1.
\<close>

theorem ExecuteTask_replay_error_returns_error:
  "fst (replayHistory (schedulingEnv\<lparr>GetWorkflowInstanceHistory := (\<lambda>i after. Inr determinismHistory)\<rparr>)
          (NewExecutor schedulingEnv sampleInstance 0) determinismHistory)
     = Some (Error ''previous workflow execution scheduled different type of activity: B, A'')
   \<and> fst (ExecuteTask (schedulingEnv\<lparr>GetWorkflowInstanceHistory := (\<lambda>i after. Inr determinismHistory)\<rparr>)
          (NewExecutor schedulingEnv sampleInstance 0) (sampleTask sampleInstance 2 []))
     = Inl (Error ''even after fetching history and replaying history executor state does not match task'')"
  by (simp add: ExecuteTask_eval processCommands_eval sample_defs schedulingEnv_def
        determinismHistory_def)

lemma executeNewEvents_loop_fail:
  assumes "i < length events"
    and "executeNewEvents_loop env e (take i events) = (None, i, ei)"
    and "executeEvent env ei (events ! i) = (Some err, e1)"
  shows "executeNewEvents_loop env e events = (Some err, i, e1)"
  using assms
proof (induction events arbitrary: e i)
  case Nil
  then show ?case by simp
next
  case (Cons event events)
  show ?case
  proof (cases i)
    case 0
    with Cons.prems show ?thesis by simp
  next
    case (Suc j)
    with Cons.prems obtain e' where
      first: "executeEvent env e event = (None, e')" and
      rest: "executeNewEvents_loop env e' (take j events) = (None, j, ei)"
      by (cases "executeEvent env e event") (auto split: option.splits prod.splits)
    from Cons.prems Suc have "j < length events" "executeEvent env ei (events ! j) = (Some err, e1)"
      by simp_all
    from Cons.IH [OF this(1) rest this(2)] first Suc show ?thesis by simp
  qed
qed

lemma processCommand_finished:
  assumes "processCommand env inst c r k = Inr (r', k')"
  shows "\<exists>ns as ws. newEvents r' = newEvents r @ ns \<and> activityEvents r' = activityEvents r @ as \<and>
     workflowEvents r' = workflowEvents r @ ws \<and>
     (\<forall>c' \<in> set [c]. \<forall>result err.
        Command_Type c' = CommandType_CompleteWorkflow \<longrightarrow>
        Command_Attr c' = CompleteWorkflowCommandAttr result err \<longrightarrow>
        (\<exists>ev \<in> set ns. Type ev = EventType_WorkflowExecutionFinished \<and>
           ScheduleEventID ev = Command_ID c' \<and>
           Attributes ev = ExecutionCompletedAttributes result err))"
  using assms
  by (auto simp: processCommand_def createNewEvent_def NewPendingEvent_def Let_def
        NewWorkflowCancellationEvent_def ScheduleEventID_option_def VisibleAt_option_def
        split: CommandType.splits CommandAttr.splits if_splits)

lemma processCommands_finished:
  assumes "fst (processCommands env e t) = Inr r"
  shows "\<forall>c' \<in> set (commands (workflowState e)). \<forall>result err.
        Command_Type c' = CommandType_CompleteWorkflow \<longrightarrow>
        Command_Attr c' = CompleteWorkflowCommandAttr result err \<longrightarrow>
        (\<exists>ev \<in> set (newEvents r). Type ev = EventType_WorkflowExecutionFinished \<and>
           ScheduleEventID ev = Command_ID c' \<and>
           Attributes ev = ExecutionCompletedAttributes result err)"
proof (rule processCommands_emits [OF assms, where S = "\<lambda>cs ns as ws.
     \<forall>c' \<in> set cs. \<forall>result err.
        Command_Type c' = CommandType_CompleteWorkflow \<longrightarrow>
        Command_Attr c' = CompleteWorkflowCommandAttr result err \<longrightarrow>
        (\<exists>ev \<in> set ns. Type ev = EventType_WorkflowExecutionFinished \<and>
           ScheduleEventID ev = Command_ID c' \<and>
           Attributes ev = ExecutionCompletedAttributes result err)"], goal_cases)
  case (1 c r k r1 k1)
  from processCommand_finished [OF this] show ?case .
next
  case 2
  show ?case by simp
next
  case (3 c cs n1 a1 w1 n2 a2 w2)
  then show ?case by (auto 4 4)
qed

lemma processCommand_wellFormed:
  "wellFormedCommand c \<Longrightarrow> \<exists>r' k'. processCommand env inst c r k = Inr (r', k')"
  by (auto simp: wellFormedCommand_def processCommand_def createNewEvent_def Let_def
           split: CommandType.splits CommandAttr.splits prod.splits)

lemma processCommands_loop_wellFormed:
  "\<forall>c \<in> set cs. wellFormedCommand c \<Longrightarrow>
     \<exists>r' cs' k'. processCommands_loop env inst cs r k = (Inr r', cs', k')"
proof (induction cs arbitrary: r k)
  case Nil
  show ?case by simp
next
  case (Cons c cs)
  from Cons.prems processCommand_wellFormed [of c env inst r k] obtain r1 k1 where
    first: "processCommand env inst c r k = Inr (r1, k1)"
    by auto
  from Cons.prems Cons.IH [of r1 k1] obtain r' cs' k' where
    "processCommands_loop env inst cs r1 k1 = (Inr r', cs', k')"
    by auto
  with first show ?case by (simp add: Let_def)
qed

lemma processCommands_wellFormed:
  assumes "\<forall>c \<in> set (commands (workflowState e)). wellFormedCommand c"
  shows "\<exists>r e'. processCommands env e t = (Inr r, e')"
proof -
  from processCommands_loop_wellFormed [OF assms] obtain r' cs' k' where
    "processCommands_loop env (Task_WorkflowInstance t) (commands (workflowState e))
       \<lparr>completed = False, newEvents = [], activityEvents = [], workflowEvents = []\<rparr> (created e)
     = (Inr r', cs', k')"
    by blast
  then show ?thesis by (simp add: processCommands_def)
qed

lemma workflowCompleted_commands:
  "commands (workflowState (workflowCompleted e result err)) =
     commands (workflowState e) @
       [NewCompleteWorkflowCommand (scheduleEventID (workflowState e) + 1) result err]"
  by (simp add: workflowCompleted_def GetNextScheduleEventID_def AddCommand_def)

lemma wellFormed_NewCompleteWorkflowCommand:
  "wellFormedCommand (NewCompleteWorkflowCommand i result err)"
  by (simp add: wellFormedCommand_def NewCompleteWorkflowCommand_def)

text \<open>
  C8: a turn without replay (the executor's \<open>lastSequenceID\<close> is the task's
  \<open>LastSequenceID\<close>). \<open>toExecute\<close> is the freshly created \<open>WorkflowTaskStarted\<close> event
  followed by the task's new events, \<open>e0\<close> the executor when the dispatch starts
  (commands cleared, replay mode off). If the first \<open>i\<close> events are dispatched without
  error and dispatching event number \<open>i\<close> returns the error \<open>m\<close>, leaving well-formed
  commands in the log, then the commands are processed (with the \<open>CompleteWorkflow\<close>
  command for \<open>m\<close> among them) and \<^verbatim>\<open>ExecuteTask\<close> returns an \<open>ExecutionResult\<close>: its
  \<open>Executed\<close> list is the first \<open>i\<close> events of \<open>toExecute\<close> followed by the events
  produced from the commands (with their sequence ids set), it is completed, and the
  events produced hold the \<open>WorkflowExecutionFinished\<close> event with the error \<open>m\<close>.
\<close>

theorem ExecuteTask_dispatch_error:
  fixes env :: "('f, 'h) env" and e :: "('f, 'h) executor" and t :: Task
  defines "toExecute \<equiv>
     fst (createNewEvent env (created e) EventType_WorkflowTaskStarted WorkflowTaskStartedAttributes [])
       # NewEvents t"
  defines "e0 \<equiv> e\<lparr>workflowState := SetReplaying (ClearCommands (workflowState e)) False,
                    created := Suc (created e)\<rparr>"
  assumes same: "lastSequenceID e = LastSequenceID t"
    and i: "i < length toExecute"
    and prefix: "executeNewEvents_loop env e0 (take i toExecute) = (None, i, ei)"
    and fails: "executeEvent env ei (toExecute ! i) = (Some (Error m), e1)"
    and wf: "\<forall>c \<in> set (commands (workflowState e1)). wellFormedCommand c"
  shows "\<exists>r e' pc e2. ExecuteTask env e t = (Inr r, e')
     \<and> processCommands env (workflowCompleted e1 None (Some m)) t = (Inr pc, e2)
     \<and> Executed r = fst (setSequenceIDs e2 (take i toExecute @ newEvents pc))
     \<and> map (\<lambda>ev. ev\<lparr>SequenceID := 0\<rparr>) (Executed r) =
         map (\<lambda>ev. ev\<lparr>SequenceID := 0\<rparr>) (take i toExecute @ newEvents pc)
     \<and> Completed r
     \<and> ActivityEvents r = activityEvents pc \<and> WorkflowEvents r = workflowEvents pc
     \<and> (\<exists>c \<in> set (commands (workflowState (workflowCompleted e1 None (Some m)))).
           Command_Type c = CommandType_CompleteWorkflow \<and>
           Command_Attr c = CompleteWorkflowCommandAttr None m)
     \<and> (\<exists>ev \<in> set (newEvents pc). Type ev = EventType_WorkflowExecutionFinished \<and>
           Attributes ev = ExecutionCompletedAttributes None m)"
proof -
  define ec where "ec = workflowCompleted e1 None (Some m)"
  define c where "c = NewCompleteWorkflowCommand (scheduleEventID (workflowState e1) + 1) None (Some m)"
  have cmds: "commands (workflowState ec) = commands (workflowState e1) @ [c]"
    by (simp add: ec_def c_def workflowCompleted_commands)
  have c_in: "c \<in> set (commands (workflowState ec))"
    by (simp add: cmds)
  have c_ty: "Command_Type c = CommandType_CompleteWorkflow"
    and c_attr: "Command_Attr c = CompleteWorkflowCommandAttr None m"
    by (simp_all add: c_def NewCompleteWorkflowCommand_def)
  have "\<forall>c \<in> set (commands (workflowState ec)). wellFormedCommand c"
    using wf by (auto simp: cmds c_def wellFormed_NewCompleteWorkflowCommand)
  from processCommands_wellFormed [OF this] obtain pc e2 where
    flush: "processCommands env ec t = (Inr pc, e2)"
    by blast
  then have pc: "fst (processCommands env ec t) = Inr pc" by simp
  from processCommands_finished [OF pc] c_in c_ty c_attr
  have finished: "\<exists>ev \<in> set (newEvents pc). Type ev = EventType_WorkflowExecutionFinished \<and>
           Attributes ev = ExecutionCompletedAttributes None m"
    by blast
  obtain cs' k' where loop:
    "processCommands_loop env (Task_WorkflowInstance t) (commands (workflowState ec))
       \<lparr>completed = False, newEvents = [], activityEvents = [], workflowEvents = []\<rparr> (created ec)
     = (Inr pc, cs', k')"
    using pc by (auto simp: processCommands_def split: prod.splits)
  from processCommands_loop_completed [OF loop] c_in c_ty have completed: "completed pc"
    by auto
  have loop_fail: "executeNewEvents_loop env e0 toExecute = (Some (Error m), i, e1)"
    using i prefix fails by (rule executeNewEvents_loop_fail)
  have start: "(e\<lparr>workflowState := ClearCommands (workflowState e), created := Suc (created e)\<rparr>)
      \<lparr>workflowState := SetReplaying (workflowState
         (e\<lparr>workflowState := ClearCommands (workflowState e), created := Suc (created e)\<rparr>)) False\<rparr> = e0"
    by (simp add: e0_def)
  have dispatch: "executeNewEvents env
       (e\<lparr>workflowState := ClearCommands (workflowState e), created := Suc (created e)\<rparr>) toExecute
     = ((take i toExecute, Some (Error m)), e1)"
    unfolding executeNewEvents_def start loop_fail by simp
  have run: "ExecuteTask env e t =
      (Inr \<lparr>Completed = completed pc,
            Executed = fst (setSequenceIDs e2 (take i toExecute @ newEvents pc)),
            ActivityEvents = activityEvents pc, WorkflowEvents = workflowEvents pc\<rparr>,
       snd (setSequenceIDs e2 (take i toExecute @ newEvents pc)))"
    using same dispatch flush
    by (simp add: ExecuteTask_def executeAndProcess_def finishTask_def Let_def createNewEvent_def
          toExecute_def ec_def split: prod.splits)
  show ?thesis
    using run flush completed finished c_in c_ty c_attr
      setSequenceIDs_rest [of e2 "take i toExecute @ newEvents pc"]
    by (auto simp: ec_def)
qed

theorem ExecuteTask_dispatch_error_witness:
  "\<exists>r e'. ExecuteTask sampleEnv (sampleExecutor [] Map.empty)
       (sampleTask sampleInstance 0
          [sampleEvent EventType_SignalReceived (SignalReceivedAttributes ''go'' None) 0 0,
           sampleEvent EventType_ActivityCompleted (ActivityCompletedAttributes None) 9 0,
           sampleEvent EventType_SignalReceived (SignalReceivedAttributes ''late'' None) 0 0])
      = (Inr r, e')
     \<and> Completed r
     \<and> map (\<lambda>ev. (Type ev, Attributes ev)) (Executed r) =
         [(EventType_WorkflowTaskStarted, WorkflowTaskStartedAttributes),
          (EventType_SignalReceived, SignalReceivedAttributes ''go'' None),
          (EventType_WorkflowExecutionFinished,
           ExecutionCompletedAttributes None ''could not find pending future for activity completion'')]"
proof -
  let ?ex = "sampleExecutor [] Map.empty :: (nat, nat) executor"
  let ?t = "sampleTask sampleInstance 0
          [sampleEvent EventType_SignalReceived (SignalReceivedAttributes ''go'' None) 0 0,
           sampleEvent EventType_ActivityCompleted (ActivityCompletedAttributes None) 9 0,
           sampleEvent EventType_SignalReceived (SignalReceivedAttributes ''late'' None) 0 0]"
  let ?toExecute = "fst (createNewEvent sampleEnv (created ?ex) EventType_WorkflowTaskStarted
                           WorkflowTaskStartedAttributes []) # NewEvents ?t"
  let ?start = "?ex\<lparr>workflowState := SetReplaying (ClearCommands (workflowState ?ex)) False,
                created := Suc (created ?ex)\<rparr>"
  let ?m = "''could not find pending future for activity completion''"
  obtain ei where prefix: "executeNewEvents_loop sampleEnv ?start (take 2 ?toExecute) = (None, 2, ei)"
    by (simp add: ExecuteTask_eval processCommands_eval sample_defs)
  obtain e1 where fails: "executeEvent sampleEnv ei (?toExecute ! 2) = (Some (Error ?m), e1)"
    and log: "commands (workflowState e1) = []"
    using prefix by (auto simp add: ExecuteTask_eval processCommands_eval sample_defs)
  have wf: "\<forall>c \<in> set (commands (workflowState e1)). wellFormedCommand c"
    by (simp add: log)
  have same: "lastSequenceID ?ex = LastSequenceID ?t" by (simp add: sample_defs sampleTask_def)
  have i: "2 < length ?toExecute" by (simp add: sampleTask_def)
  from ExecuteTask_dispatch_error [OF same i prefix fails wf] obtain r e' pc e2 where
    run: "ExecuteTask sampleEnv ?ex ?t = (Inr r, e')" and
    flush: "processCommands sampleEnv (workflowCompleted e1 None (Some ?m)) ?t = (Inr pc, e2)" and
    fin: "Completed r" and
    ex: "map (\<lambda>ev. ev\<lparr>SequenceID := 0\<rparr>) (Executed r) =
         map (\<lambda>ev. ev\<lparr>SequenceID := 0\<rparr>) (take 2 ?toExecute @ newEvents pc)"
    by blast
  have news: "map (\<lambda>ev. (Type ev, Attributes ev)) (newEvents pc) =
        [(EventType_WorkflowExecutionFinished, ExecutionCompletedAttributes None ?m)]"
    using flush log by (auto simp add: ExecuteTask_eval processCommands_eval sample_defs)
  have "map (\<lambda>ev. (Type ev, Attributes ev)) (Executed r) =
      map (\<lambda>ev. (Type ev, Attributes ev)) (map (\<lambda>ev. ev\<lparr>SequenceID := 0\<rparr>) (Executed r))"
    by (simp add: comp_def)
  also have "\<dots> = map (\<lambda>ev. (Type ev, Attributes ev)) (take 2 ?toExecute @ newEvents pc)"
    by (simp only: ex) (simp add: comp_def)
  also have "\<dots> = [(EventType_WorkflowTaskStarted, WorkflowTaskStartedAttributes),
          (EventType_SignalReceived, SignalReceivedAttributes ''go'' None),
          (EventType_WorkflowExecutionFinished, ExecutionCompletedAttributes None ?m)]"
    using news by (simp add: createNewEvent_def NewPendingEvent_def sampleTask_def sample_defs)
  finally show ?thesis using run fin by simp
qed

end
